theory Spec2Isabelle
  imports Main
begin

section \<open>Record model (src/src/types/vendor.ts)\<close>

text \<open>
  The \<^verbatim>\<open>Vendor\<close> interface: five string fields and one number. \<^verbatim>\<open>BusinessType\<close> is a union
  of string literals that TypeScript erases, so the field is a string at run time; the
  number field is kept polymorphic (\<open>'n\<close>), since no operation of the program computes
  with it beyond copying it.
\<close>

record 'n Vendor =
  CompanyName :: string
  BusinessType :: string
  Products :: string
  YearsInBusiness :: 'n
  OnboardingDate :: string
  AdditionalInfo :: string

text \<open>\<^verbatim>\<open>VendorFormData\<close>: the edit form; \<open>businessType\<close> may be the empty string.\<close>

record 'n VendorFormData =
  companyName :: string
  businessType :: string
  products :: "string list"
  yearsInBusiness :: 'n
  onboardingDate :: string
  additionalInfo :: string

text \<open>The constants \<^verbatim>\<open>BUSINESS_TYPES\<close> and \<^verbatim>\<open>PRODUCTS\<close> of constants/vendor.\<close>

definition BUSINESS_TYPES :: "string list" where
  "BUSINESS_TYPES =
     [''Manufacturer'', ''Distributor'', ''Wholesaler'', ''Retailer'', ''Service Provider'']"

definition PRODUCTS :: "string list" where
  "PRODUCTS = [''Electronics'', ''Apparel'', ''Groceries'', ''Software'', ''Other'']"


section \<open>String primitives of the host language\<close>

text \<open>
  \<^verbatim>\<open>String.prototype.trim\<close>: strips white space at both ends. Strings are byte lists here,
  so the white space is the ASCII part of the language's set (tab, line feed, vertical tab,
  form feed, carriage return, space).
\<close>

definition is_space :: "char \<Rightarrow> bool" where
  "is_space c = (c \<in> set [CHR 0x09, CHR 0x0A, CHR 0x0B, CHR 0x0C, CHR 0x0D, CHR '' ''])"

definition trim :: "string \<Rightarrow> string" where
  "trim s = rev (dropWhile is_space (rev (dropWhile is_space s)))"

text \<open>\<^verbatim>\<open>Array.prototype.join(sep)\<close> on an array of strings.\<close>

fun join :: "string \<Rightarrow> string list \<Rightarrow> string" where
  "join sep [] = []"
| "join sep [x] = x"
| "join sep (x # y # ys) = x @ sep @ join sep (y # ys)"

text \<open>
  \<^verbatim>\<open>String.prototype.split(sep)\<close>: the text is cut at each leftmost occurrence of the
  separator, scanning from the left; \<open>cur\<close> holds the current segment, reversed. With an
  empty separator the result is the list of the single characters.
\<close>

function split_from :: "string \<Rightarrow> string \<Rightarrow> string \<Rightarrow> string list" where
  "split_from sep cur [] = [rev cur]"
| "split_from sep cur (c # cs) =
     (if sep \<noteq> [] \<and> take (length sep) (c # cs) = sep
      then rev cur # split_from sep [] (drop (length sep) (c # cs))
      else split_from sep (c # cur) cs)"
  by pat_completeness auto
termination
  by (relation "measure (\<lambda>(sep, cur, s). length s)") auto

definition split :: "string \<Rightarrow> string \<Rightarrow> string list" where
  "split s sep = (if sep = [] then map (\<lambda>c. [c]) s else split_from sep [] s)"

text \<open>\<^verbatim>\<open>xs.filter(Boolean)\<close> on strings: the empty string is the only falsy one.\<close>

definition filter_Boolean :: "string list \<Rightarrow> string list" where
  "filter_Boolean xs = filter (\<lambda>s. s \<noteq> []) xs"


section \<open>Conversions between storage form and edit form (src/src/utils/validation.ts)\<close>

definition formDataToVendor :: "'n VendorFormData \<Rightarrow> 'n Vendor" where
  "formDataToVendor formData =
     \<lparr> CompanyName = trim (companyName formData),
       BusinessType = businessType formData,
       Products = join '', '' (products formData),
       YearsInBusiness = yearsInBusiness formData,
       OnboardingDate = onboardingDate formData,
       AdditionalInfo = trim (additionalInfo formData) \<rparr>"

definition vendorToFormData :: "'n Vendor \<Rightarrow> 'n VendorFormData" where
  "vendorToFormData vendor =
     \<lparr> companyName = CompanyName vendor,
       businessType = BusinessType vendor,
       products = (if Products vendor \<noteq> []
                   then filter_Boolean (split (Products vendor) '', '')
                   else []),
       yearsInBusiness = YearsInBusiness vendor,
       onboardingDate = OnboardingDate vendor,
       additionalInfo = (if AdditionalInfo vendor \<noteq> [] then AdditionalInfo vendor else []) \<rparr>"


section \<open>Result envelope and thrown values\<close>

text \<open>\<^verbatim>\<open>SheetsApiResponse<T>\<close>: a success flag, an optional payload, an optional message.\<close>

record 'a SheetsApiResponse =
  success :: bool
  data :: "'a option"
  error :: "string option"

text \<open>
  What a \<^verbatim>\<open>throw\<close> or a rejected promise carries: an instance of \<^verbatim>\<open>Error\<close> with its
  message, or any other value. A function body that may throw returns \<open>thrown + 'a\<close>.
\<close>

datatype thrown = ErrorObj string | NonError

text \<open>\<^verbatim>\<open>error instanceof Error ? error.message : fallback\<close>, the expression of every catch block.\<close>

fun message_or :: "thrown \<Rightarrow> string \<Rightarrow> string" where
  "message_or (ErrorObj m) fallback = m"
| "message_or NonError fallback = fallback"

definition failure :: "thrown \<Rightarrow> string \<Rightarrow> 'a SheetsApiResponse" where
  "failure e fallback = \<lparr> success = False, data = None, error = Some (message_or e fallback) \<rparr>"

text \<open>\<^verbatim>\<open>Array.prototype.findIndex\<close>: the index of the first element that satisfies \<open>P\<close>, or \<open>-1\<close>.\<close>

fun findIndex_from :: "int \<Rightarrow> ('a \<Rightarrow> bool) \<Rightarrow> 'a list \<Rightarrow> int" where
  "findIndex_from i P [] = -1"
| "findIndex_from i P (x # xs) = (if P x then i else findIndex_from (i + 1) P xs)"

definition findIndex :: "('a \<Rightarrow> bool) \<Rightarrow> 'a list \<Rightarrow> int" where
  "findIndex P xs = findIndex_from 0 P xs"

text \<open>The message \<^verbatim>\<open>`Vendor "${name}" not found`\<close> of update and delete.\<close>

definition not_found :: "string \<Rightarrow> string" where
  "not_found name = ''Vendor '' @ [CHR 0x22] @ name @ [CHR 0x22] @ '' not found''"


section \<open>Remote tabular backend (createGoogleSheetsService)\<close>

text \<open>
  A cell or property value of the host language: \<^verbatim>\<open>undefined\<close>, a string or a number.
  An object built by assigning properties one by one is a finite map from property names.
\<close>

datatype 'n jsval = JUndefined | JString string | JNumber 'n

type_synonym 'n obj = "string \<rightharpoonup> 'n jsval"

definition get_prop :: "'n obj \<Rightarrow> string \<Rightarrow> 'n jsval" where
  "get_prop v name = (case v name of None \<Rightarrow> JUndefined | Some x \<Rightarrow> x)"

text \<open>
  The requests the service sends, by method and range; the spreadsheet id, the worksheet
  name and the key are the same in all of them and are left out. \<open>PutRow n\<close> writes the
  range \<^verbatim>\<open>A{n}:F{n}\<close>, \<open>PutSheet\<close> the whole worksheet.
\<close>

datatype 'n request =
    Get
  | PostAppend "'n jsval list list"
  | PutRow int "'n jsval list list"
  | PutSheet "'n jsval list list"

text \<open>
  The response as the service reads it: \<open>status\<close> is the status code as the template
  string renders it, \<open>json\<close> the outcome of reading the body: what is thrown when
  \<^verbatim>\<open>response.json()\<close> rejects or when the parsed body has no members to read
  (\<^verbatim>\<open>null\<close>), or the \<^verbatim>\<open>values\<close> member of the parsed body (\<open>None\<close> when the body
  has none).
  The transport answers each request with a rejection of \<^verbatim>\<open>fetch\<close> or with a response.
\<close>

record http_response =
  ok :: bool
  status :: string
  statusText :: string
  json :: "thrown + string list list option"

type_synonym 'n transport = "'n request \<Rightarrow> thrown + http_response"

text \<open>\<^verbatim>\<open>row[index] || ''\<close>: a missing or empty cell reads as the empty string.\<close>

definition cell_or_empty :: "string list \<Rightarrow> nat \<Rightarrow> string" where
  "cell_or_empty row index = (if index < length row \<and> row ! index \<noteq> [] then row ! index else [])"

text \<open>
  The callback of \<^verbatim>\<open>rows.slice(1).map\<close>: the header names become the property names
  (a later header of the same name overwrites an earlier one), then \<^verbatim>\<open>YearsInBusiness\<close>
  is replaced by \<^verbatim>\<open>Number(vendor.YearsInBusiness) || 0\<close>. \<open>Number\<close> is the language's
  conversion, \<open>None\<close> standing for NaN.
\<close>

definition row_to_vendor ::
  "('n jsval \<Rightarrow> 'n option) \<Rightarrow> string list \<Rightarrow> string list \<Rightarrow> ('n::zero) obj" where
  "row_to_vendor Number headers row =
     (let vendor = fold (\<lambda>(index, header) v. v(header \<mapsto> JString (cell_or_empty row index)))
                     (enumerate 0 headers) Map.empty
      in vendor(''YearsInBusiness'' \<mapsto>
           JNumber (case Number (get_prop vendor ''YearsInBusiness'') of None \<Rightarrow> 0 | Some n \<Rightarrow> n)))"

definition gs_fetchVendors_try ::
  "('n jsval \<Rightarrow> 'n option) \<Rightarrow> 'n transport \<Rightarrow> thrown + ('n::zero) obj list SheetsApiResponse" where
  "gs_fetchVendors_try Number net =
     (case net Get of
        Inl e \<Rightarrow> Inl e
      | Inr response \<Rightarrow>
          if \<not> ok response
          then Inl (ErrorObj (''Google Sheets API error: '' @ status response @ '' '' @ statusText response))
          else (case json response of
                  Inl e \<Rightarrow> Inl e
                | Inr values \<Rightarrow>
                    let rows = (case values of None \<Rightarrow> [] | Some vs \<Rightarrow> vs) in
                    if length rows \<le> 1
                    then Inr \<lparr> success = True, data = Some [], error = None \<rparr>
                    else let headers = rows ! 0;
                             vendors = map (row_to_vendor Number headers) (drop 1 rows)
                         in Inr \<lparr> success = True, data = Some vendors, error = None \<rparr>))"

definition gs_fetchVendors ::
  "('n jsval \<Rightarrow> 'n option) \<Rightarrow> 'n transport \<Rightarrow> ('n::zero) obj list SheetsApiResponse" where
  "gs_fetchVendors Number net =
     (case gs_fetchVendors_try Number net of
        Inl e \<Rightarrow> failure e ''Failed to fetch vendors''
      | Inr r \<Rightarrow> r)"

text \<open>The row of six cells that add and update write for a record.\<close>

definition vendor_cells :: "'n Vendor \<Rightarrow> 'n jsval list" where
  "vendor_cells vendor =
     [JString (CompanyName vendor), JString (BusinessType vendor), JString (Products vendor),
      JNumber (YearsInBusiness vendor), JString (OnboardingDate vendor),
      JString (AdditionalInfo vendor)]"

text \<open>
  The operations that write return the envelope together with the requests they sent, in
  order.
\<close>

definition gs_addVendor_try ::
  "'n transport \<Rightarrow> 'n Vendor \<Rightarrow> (thrown + 'n Vendor SheetsApiResponse) \<times> 'n request list" where
  "gs_addVendor_try net vendor =
     (let values = [vendor_cells vendor]; req = PostAppend values in
      (case net req of
         Inl e \<Rightarrow> (Inl e, [req])
       | Inr response \<Rightarrow>
           if \<not> ok response
           then (Inl (ErrorObj (''Failed to add vendor: '' @ statusText response)), [req])
           else (Inr \<lparr> success = True, data = Some vendor, error = None \<rparr>, [req])))"

definition gs_addVendor ::
  "'n transport \<Rightarrow> 'n Vendor \<Rightarrow> 'n Vendor SheetsApiResponse \<times> 'n request list" where
  "gs_addVendor net vendor =
     (case gs_addVendor_try net vendor of
        (Inl e, reqs) \<Rightarrow> (failure e ''Failed to add vendor'', reqs)
      | (Inr r, reqs) \<Rightarrow> (r, reqs))"

definition gs_updateVendor_try ::
  "('n jsval \<Rightarrow> 'n option) \<Rightarrow> 'n transport \<Rightarrow> string \<Rightarrow> 'n Vendor
     \<Rightarrow> (thrown + ('n::zero) Vendor SheetsApiResponse) \<times> 'n request list" where
  "gs_updateVendor_try Number net originalName vendor =
     (let allData = gs_fetchVendors Number net in
      case (if success allData then data allData else None) of
        None \<Rightarrow> (Inl (ErrorObj ''Failed to fetch existing data for update''), [Get])
      | Some vendors \<Rightarrow>
          let rowIndex = findIndex (\<lambda>v. get_prop v ''CompanyName'' = JString originalName) vendors in
          if rowIndex = -1
          then (Inl (ErrorObj (not_found originalName)), [Get])
          else let sheetRow = rowIndex + 2;
                   values = [vendor_cells vendor];
                   req = PutRow sheetRow values
               in (case net req of
                     Inl e \<Rightarrow> (Inl e, [Get, req])
                   | Inr response \<Rightarrow>
                       if \<not> ok response
                       then (Inl (ErrorObj (''Failed to update vendor: '' @ statusText response)),
                             [Get, req])
                       else (Inr \<lparr> success = True, data = Some vendor, error = None \<rparr>,
                             [Get, req])))"

definition gs_updateVendor ::
  "('n jsval \<Rightarrow> 'n option) \<Rightarrow> 'n transport \<Rightarrow> string \<Rightarrow> 'n Vendor
     \<Rightarrow> ('n::zero) Vendor SheetsApiResponse \<times> 'n request list" where
  "gs_updateVendor Number net originalName vendor =
     (case gs_updateVendor_try Number net originalName vendor of
        (Inl e, reqs) \<Rightarrow> (failure e ''Failed to update vendor'', reqs)
      | (Inr r, reqs) \<Rightarrow> (r, reqs))"

definition sheet_headers :: "string list" where
  "sheet_headers =
     [''CompanyName'', ''BusinessType'', ''Products'', ''YearsInBusiness'', ''OnboardingDate'',
      ''AdditionalInfo'']"

text \<open>The row delete writes for a fetched object: its six properties, in the fixed order.\<close>

definition obj_cells :: "'n obj \<Rightarrow> 'n jsval list" where
  "obj_cells v =
     [get_prop v ''CompanyName'', get_prop v ''BusinessType'', get_prop v ''Products'',
      get_prop v ''YearsInBusiness'', get_prop v ''OnboardingDate'', get_prop v ''AdditionalInfo'']"

definition gs_deleteVendor_try ::
  "('n jsval \<Rightarrow> 'n option) \<Rightarrow> ('n::zero) transport \<Rightarrow> string
     \<Rightarrow> (thrown + unit SheetsApiResponse) \<times> 'n request list" where
  "gs_deleteVendor_try Number net companyName' =
     (let allData = gs_fetchVendors Number net in
      case (if success allData then data allData else None) of
        None \<Rightarrow> (Inl (ErrorObj ''Failed to fetch existing data for deletion''), [Get])
      | Some vendors \<Rightarrow>
          let rowIndex = findIndex (\<lambda>v. get_prop v ''CompanyName'' = JString companyName') vendors in
          if rowIndex = -1
          then (Inl (ErrorObj (not_found companyName')), [Get])
          else let updatedVendors =
                     filter (\<lambda>v. get_prop v ''CompanyName'' \<noteq> JString companyName') vendors;
                   values = map JString sheet_headers # map obj_cells updatedVendors;
                   req = PutSheet values
               in (case net req of
                     Inl e \<Rightarrow> (Inl e, [Get, req])
                   | Inr response \<Rightarrow>
                       if \<not> ok response
                       then (Inl (ErrorObj (''Failed to delete vendor: '' @ statusText response)),
                             [Get, req])
                       else (Inr \<lparr> success = True, data = None, error = None \<rparr>, [Get, req])))"

definition gs_deleteVendor ::
  "('n jsval \<Rightarrow> 'n option) \<Rightarrow> ('n::zero) transport \<Rightarrow> string
     \<Rightarrow> unit SheetsApiResponse \<times> 'n request list" where
  "gs_deleteVendor Number net companyName' =
     (case gs_deleteVendor_try Number net companyName' of
        (Inl e, reqs) \<Rightarrow> (failure e ''Failed to delete vendor'', reqs)
      | (Inr r, reqs) \<Rightarrow> (r, reqs))"


section \<open>Local persisted backend (createLocalStorageService)\<close>

text \<open>
  The text stored under a key is represented by what \<^verbatim>\<open>JSON.parse\<close> makes of it:
  \<open>Encoded vs\<close> is the text \<^verbatim>\<open>JSON.stringify(vs)\<close> of a list of records, and
  \<open>Unparseable s\<close> is a text \<open>s\<close> on which \<^verbatim>\<open>JSON.parse\<close> throws (the empty text among
  them). The storage maps keys to texts; \<open>write_fault\<close> is the exception \<^verbatim>\<open>setItem\<close>
  throws when the storage refuses a write (quota exceeded), if it does.
\<close>

datatype 'n item = Unparseable string | Encoded "'n Vendor list"

record 'n localStorage =
  items :: "string \<rightharpoonup> 'n item"
  write_fault :: "thrown option"

definition getItem :: "'n localStorage \<Rightarrow> string \<Rightarrow> 'n item option" where
  "getItem ls key = items ls key"

definition setItem :: "'n localStorage \<Rightarrow> string \<Rightarrow> 'n item \<Rightarrow> (thrown + unit) \<times> 'n localStorage" where
  "setItem ls key v =
     (case write_fault ls of
        Some e \<Rightarrow> (Inl e, ls)
      | None \<Rightarrow> (Inr (), ls\<lparr>items := (items ls)(key \<mapsto> v)\<rparr>))"

text \<open>The condition \<^verbatim>\<open>if (stored)\<close>: \<^verbatim>\<open>null\<close> and the empty text are falsy.\<close>

fun truthy :: "'n item option \<Rightarrow> bool" where
  "truthy None = False"
| "truthy (Some (Unparseable s)) = (s \<noteq> [])"
| "truthy (Some (Encoded vs)) = True"

text \<open>\<^verbatim>\<open>JSON.parse\<close> (\<open>None\<close>: it throws) and \<^verbatim>\<open>JSON.stringify\<close>.\<close>

fun JSON_parse :: "'n item \<Rightarrow> 'n Vendor list option" where
  "JSON_parse (Unparseable s) = None"
| "JSON_parse (Encoded vs) = Some vs"

definition JSON_stringify :: "'n Vendor list \<Rightarrow> 'n item" where
  "JSON_stringify vs = Encoded vs"

definition STORAGE_KEY :: string where
  "STORAGE_KEY = ''vendor-management-data''"

definition SEED_DATA :: "('n::numeral) Vendor list" where
  "SEED_DATA =
     [\<lparr> CompanyName = ''Acme Electronics'', BusinessType = ''Manufacturer'',
        Products = ''Electronics, Software'', YearsInBusiness = 15,
        OnboardingDate = ''2024-01-15'', AdditionalInfo = ''Primary electronics supplier'' \<rparr>,
      \<lparr> CompanyName = ''Global Distributors Inc.'', BusinessType = ''Distributor'',
        Products = ''Electronics, Apparel, Groceries'', YearsInBusiness = 25,
        OnboardingDate = ''2023-06-20'',
        AdditionalInfo = ''International distribution network'' \<rparr>,
      \<lparr> CompanyName = ''FreshMart Wholesale'', BusinessType = ''Wholesaler'',
        Products = ''Groceries'', YearsInBusiness = 8,
        OnboardingDate = ''2024-03-10'',
        AdditionalInfo = ''Organic and fresh produce specialist'' \<rparr>,
      \<lparr> CompanyName = ''TechSoft Solutions'', BusinessType = ''Service Provider'',
        Products = ''Software'', YearsInBusiness = 5,
        OnboardingDate = ''2024-07-01'', AdditionalInfo = ''Cloud-based SaaS solutions'' \<rparr>,
      \<lparr> CompanyName = ''StyleHub Retail'', BusinessType = ''Retailer'',
        Products = ''Apparel, Other'', YearsInBusiness = 12,
        OnboardingDate = ''2023-11-30'', AdditionalInfo = ''Premium fashion retail chain'' \<rparr>]"

text \<open>
  \<^verbatim>\<open>getStoredVendors\<close>: returns the list read and the storage after the read. The inner
  \<^verbatim>\<open>try\<close> catches the failure of \<^verbatim>\<open>JSON.parse\<close>; the write of the seed is outside it.
\<close>

definition getStoredVendors ::
  "('n::numeral) localStorage \<Rightarrow> (thrown + 'n Vendor list) \<times> 'n localStorage" where
  "getStoredVendors ls =
     (let stored = getItem ls STORAGE_KEY in
      case (if truthy stored then stored else None) of
        Some text \<Rightarrow>
          (case JSON_parse text of
             Some vs \<Rightarrow> (Inr vs, ls)
           | None \<Rightarrow> (Inr SEED_DATA, ls))
      | None \<Rightarrow>
          (case setItem ls STORAGE_KEY (JSON_stringify SEED_DATA) of
             (Inl e, ls') \<Rightarrow> (Inl e, ls')
           | (Inr _, ls') \<Rightarrow> (Inr SEED_DATA, ls')))"

definition saveVendors ::
  "'n Vendor list \<Rightarrow> 'n localStorage \<Rightarrow> (thrown + unit) \<times> 'n localStorage" where
  "saveVendors vs ls = setItem ls STORAGE_KEY (JSON_stringify vs)"

text \<open>
  The four operations: the body of each \<^verbatim>\<open>try\<close> block, then the operation with its
  \<^verbatim>\<open>catch\<close>. Each returns the envelope and the storage after the call. The simulated
  delay has no effect on either.
\<close>

definition ls_fetchVendors_try ::
  "('n::numeral) localStorage \<Rightarrow> (thrown + 'n Vendor list SheetsApiResponse) \<times> 'n localStorage" where
  "ls_fetchVendors_try ls =
     (case getStoredVendors ls of
        (Inl e, ls1) \<Rightarrow> (Inl e, ls1)
      | (Inr vs, ls1) \<Rightarrow> (Inr \<lparr> success = True, data = Some vs, error = None \<rparr>, ls1))"

definition ls_fetchVendors ::
  "('n::numeral) localStorage \<Rightarrow> 'n Vendor list SheetsApiResponse \<times> 'n localStorage" where
  "ls_fetchVendors ls =
     (case ls_fetchVendors_try ls of
        (Inl e, ls') \<Rightarrow> (failure e ''Failed to fetch vendors'', ls')
      | (Inr r, ls') \<Rightarrow> (r, ls'))"

definition ls_addVendor_try ::
  "'n Vendor \<Rightarrow> ('n::numeral) localStorage
     \<Rightarrow> (thrown + 'n Vendor SheetsApiResponse) \<times> 'n localStorage" where
  "ls_addVendor_try vendor ls =
     (case getStoredVendors ls of
        (Inl e, ls1) \<Rightarrow> (Inl e, ls1)
      | (Inr vs, ls1) \<Rightarrow>
          (case saveVendors (vs @ [vendor]) ls1 of
             (Inl e, ls2) \<Rightarrow> (Inl e, ls2)
           | (Inr _, ls2) \<Rightarrow> (Inr \<lparr> success = True, data = Some vendor, error = None \<rparr>, ls2)))"

definition ls_addVendor ::
  "'n Vendor \<Rightarrow> ('n::numeral) localStorage \<Rightarrow> 'n Vendor SheetsApiResponse \<times> 'n localStorage" where
  "ls_addVendor vendor ls =
     (case ls_addVendor_try vendor ls of
        (Inl e, ls') \<Rightarrow> (failure e ''Failed to add vendor'', ls')
      | (Inr r, ls') \<Rightarrow> (r, ls'))"

definition ls_updateVendor_try ::
  "string \<Rightarrow> 'n Vendor \<Rightarrow> ('n::numeral) localStorage
     \<Rightarrow> (thrown + 'n Vendor SheetsApiResponse) \<times> 'n localStorage" where
  "ls_updateVendor_try originalName vendor ls =
     (case getStoredVendors ls of
        (Inl e, ls1) \<Rightarrow> (Inl e, ls1)
      | (Inr vs, ls1) \<Rightarrow>
          let index = findIndex (\<lambda>v. CompanyName v = originalName) vs in
          if index = -1
          then (Inr \<lparr> success = False, data = None, error = Some (not_found originalName) \<rparr>, ls1)
          else (case saveVendors (vs[nat index := vendor]) ls1 of
                  (Inl e, ls2) \<Rightarrow> (Inl e, ls2)
                | (Inr _, ls2) \<Rightarrow>
                    (Inr \<lparr> success = True, data = Some vendor, error = None \<rparr>, ls2)))"

definition ls_updateVendor ::
  "string \<Rightarrow> 'n Vendor \<Rightarrow> ('n::numeral) localStorage
     \<Rightarrow> 'n Vendor SheetsApiResponse \<times> 'n localStorage" where
  "ls_updateVendor originalName vendor ls =
     (case ls_updateVendor_try originalName vendor ls of
        (Inl e, ls') \<Rightarrow> (failure e ''Failed to update vendor'', ls')
      | (Inr r, ls') \<Rightarrow> (r, ls'))"

definition ls_deleteVendor_try ::
  "string \<Rightarrow> ('n::numeral) localStorage \<Rightarrow> (thrown + unit SheetsApiResponse) \<times> 'n localStorage" where
  "ls_deleteVendor_try companyName' ls =
     (case getStoredVendors ls of
        (Inl e, ls1) \<Rightarrow> (Inl e, ls1)
      | (Inr vs, ls1) \<Rightarrow>
          let filtered = filter (\<lambda>v. CompanyName v \<noteq> companyName') vs in
          if length filtered = length vs
          then (Inr \<lparr> success = False, data = None, error = Some (not_found companyName') \<rparr>, ls1)
          else (case saveVendors filtered ls1 of
                  (Inl e, ls2) \<Rightarrow> (Inl e, ls2)
                | (Inr _, ls2) \<Rightarrow> (Inr \<lparr> success = True, data = None, error = None \<rparr>, ls2)))"

definition ls_deleteVendor ::
  "string \<Rightarrow> ('n::numeral) localStorage \<Rightarrow> unit SheetsApiResponse \<times> 'n localStorage" where
  "ls_deleteVendor companyName' ls =
     (case ls_deleteVendor_try companyName' ls of
        (Inl e, ls') \<Rightarrow> (failure e ''Failed to delete vendor'', ls')
      | (Inr r, ls') \<Rightarrow> (r, ls'))"


section \<open>Orchestration layer (src/src/hooks/useVendors.ts)\<close>

text \<open>
  The service contract \<^verbatim>\<open>VendorDataService\<close>, over a backend state \<open>'b\<close> that each call
  may change, and the local backend as an instance of it.
\<close>

record ('b, 'v) VendorDataService =
  svc_fetchVendors :: "'b \<Rightarrow> 'v list SheetsApiResponse \<times> 'b"
  svc_addVendor :: "'v \<Rightarrow> 'b \<Rightarrow> 'v SheetsApiResponse \<times> 'b"
  svc_updateVendor :: "string \<Rightarrow> 'v \<Rightarrow> 'b \<Rightarrow> 'v SheetsApiResponse \<times> 'b"
  svc_deleteVendor :: "string \<Rightarrow> 'b \<Rightarrow> unit SheetsApiResponse \<times> 'b"

definition createLocalStorageService ::
  "(('n::numeral) localStorage, 'n Vendor) VendorDataService" where
  "createLocalStorageService =
     \<lparr> svc_fetchVendors = ls_fetchVendors, svc_addVendor = ls_addVendor,
       svc_updateVendor = ls_updateVendor, svc_deleteVendor = ls_deleteVendor \<rparr>"

datatype AlertType = AlertSuccess | AlertWarning | AlertError | AlertInfo

record AlertMessage =
  alert_type :: AlertType
  message :: string

text \<open>The five state variables of the hook (\<open>error_msg\<close> is the variable \<^verbatim>\<open>error\<close>).\<close>

record 'v hook_state =
  vendors :: "'v list"
  isLoading :: bool
  isInitialLoading :: bool
  error_msg :: "string option"
  alert :: "AlertMessage option"

text \<open>
  What an operation of the hook runs in: the state variables, the backend behind the
  service, and the log of the service methods called so far.
\<close>

datatype call = FetchVendorsCall | AddVendorCall | UpdateVendorCall | DeleteVendorCall

record ('b, 'v) world =
  ui :: "'v hook_state"
  backend :: 'b
  calls :: "call list"

text \<open>\<^verbatim>\<open>result.error || fallback\<close>: an absent or empty message gives the fallback.\<close>

definition or_default :: "string option \<Rightarrow> string \<Rightarrow> string" where
  "or_default e fallback = (case e of None \<Rightarrow> fallback | Some m \<Rightarrow> if m = [] then fallback else m)"

definition refresh :: "('b, 'v) VendorDataService \<Rightarrow> ('b, 'v) world \<Rightarrow> ('b, 'v) world" where
  "refresh service w =
     (let s1 = (ui w)\<lparr>isLoading := True, error_msg := None\<rparr>;
          (result, b) = svc_fetchVendors service (backend w);
          s2 = (case (if success result then data result else None) of
                  Some d \<Rightarrow> s1\<lparr>vendors := d\<rparr>
                | None \<Rightarrow> s1\<lparr>error_msg := Some (or_default (error result) ''Failed to fetch vendor data'')\<rparr>)
      in \<lparr> ui = s2\<lparr>isLoading := False, isInitialLoading := False\<rparr>,
           backend = b,
           calls = calls w @ [FetchVendorsCall] \<rparr>)"

definition addVendor ::
  "('b, 'v) VendorDataService \<Rightarrow> 'v \<Rightarrow> ('b, 'v) world \<Rightarrow> bool \<times> ('b, 'v) world" where
  "addVendor service vendor w =
     (let s1 = (ui w)\<lparr>isLoading := True, alert := None\<rparr>;
          (result, b) = svc_addVendor service vendor (backend w);
          log = calls w @ [AddVendorCall]
      in if success result
         then (True,
               refresh service
                 \<lparr> ui = s1\<lparr>alert := Some \<lparr> alert_type = AlertSuccess,
                                         message = ''Vendor details successfully submitted!'' \<rparr>\<rparr>,
                   backend = b, calls = log \<rparr>)
         else (False,
               \<lparr> ui = s1\<lparr>alert := Some \<lparr> alert_type = AlertError,
                                       message = or_default (error result) ''Failed to add vendor'' \<rparr>,
                        isLoading := False\<rparr>,
                 backend = b, calls = log \<rparr>))"

definition updateVendor ::
  "('b, 'v) VendorDataService \<Rightarrow> string \<Rightarrow> 'v \<Rightarrow> ('b, 'v) world \<Rightarrow> bool \<times> ('b, 'v) world" where
  "updateVendor service originalName vendor w =
     (let s1 = (ui w)\<lparr>isLoading := True, alert := None\<rparr>;
          (result, b) = svc_updateVendor service originalName vendor (backend w);
          log = calls w @ [UpdateVendorCall]
      in if success result
         then (True,
               refresh service
                 \<lparr> ui = s1\<lparr>alert := Some \<lparr> alert_type = AlertSuccess,
                                         message = ''Vendor details successfully updated!'' \<rparr>\<rparr>,
                   backend = b, calls = log \<rparr>)
         else (False,
               \<lparr> ui = s1\<lparr>alert := Some \<lparr> alert_type = AlertError,
                                       message = or_default (error result) ''Failed to update vendor'' \<rparr>,
                        isLoading := False\<rparr>,
                 backend = b, calls = log \<rparr>))"

definition deleteVendor ::
  "('b, 'v) VendorDataService \<Rightarrow> string \<Rightarrow> ('b, 'v) world \<Rightarrow> bool \<times> ('b, 'v) world" where
  "deleteVendor service companyName' w =
     (let s1 = (ui w)\<lparr>isLoading := True, alert := None\<rparr>;
          (result, b) = svc_deleteVendor service companyName' (backend w);
          log = calls w @ [DeleteVendorCall]
      in if success result
         then (True,
               refresh service
                 \<lparr> ui = s1\<lparr>alert := Some \<lparr> alert_type = AlertSuccess,
                                         message = ''Vendor successfully deleted!'' \<rparr>\<rparr>,
                   backend = b, calls = log \<rparr>)
         else (False,
               \<lparr> ui = s1\<lparr>alert := Some \<lparr> alert_type = AlertError,
                                       message = or_default (error result) ''Failed to delete vendor'' \<rparr>,
                        isLoading := False\<rparr>,
                 backend = b, calls = log \<rparr>))"

text \<open>The state the hook starts in, before the first refresh.\<close>

definition initial_state :: "'v hook_state" where
  "initial_state =
     \<lparr> vendors = [], isLoading = False, isInitialLoading = True, error_msg = None, alert = None \<rparr>"


section \<open>Failure envelopes and failing environments\<close>

text \<open>
  A failure envelope: the success flag is false and a message is present. A request
  fails when \<^verbatim>\<open>fetch\<close> rejects or the response has a non-success status; the read
  fails when its request fails or the body of the response does not parse.
\<close>

definition is_failure :: "'a SheetsApiResponse \<Rightarrow> bool" where
  "is_failure r = (\<not> success r \<and> error r \<noteq> None)"

definition request_fails :: "'n transport \<Rightarrow> 'n request \<Rightarrow> bool" where
  "request_fails net req = (case net req of Inl e \<Rightarrow> True | Inr response \<Rightarrow> \<not> ok response)"

definition read_fails :: "'n transport \<Rightarrow> bool" where
  "read_fails net =
     (case net Get of
        Inl e \<Rightarrow> True
      | Inr response \<Rightarrow>
          \<not> ok response \<or> (case json response of Inl e \<Rightarrow> True | Inr body \<Rightarrow> False))"


section \<open>Environments used in the examples\<close>

text \<open>
  A transport that answers every request with a successful response whose body holds the
  given rows, and one whose responses all carry a non-success status.
\<close>

definition serving :: "string list list \<Rightarrow> 'n transport" where
  "serving rows req = Inr \<lparr> ok = True, status = ''200'', statusText = ''OK'', json = Inr (Some rows) \<rparr>"

definition refusing :: "'n transport" where
  "refusing req =
     Inr \<lparr> ok = False, status = ''403'', statusText = ''Forbidden'', json = Inr None \<rparr>"

text \<open>A transport that serves the read of the given rows and refuses every write.\<close>

definition read_only :: "string list list \<Rightarrow> 'n transport" where
  "read_only rows req =
     (case req of
        Get \<Rightarrow> Inr \<lparr> ok = True, status = ''200'', statusText = ''OK'', json = Inr (Some rows) \<rparr>
      | _ \<Rightarrow> Inr \<lparr> ok = False, status = ''403'', statusText = ''Forbidden'', json = Inr None \<rparr>)"

text \<open>
  A number conversion for the examples: it agrees with the language's \<^verbatim>\<open>Number\<close> on
  numbers, on \<^verbatim>\<open>undefined\<close> and on texts made of decimal digits only (the empty text
  converts to 0), and gives NaN on every other text.
\<close>

definition Number_digits :: "int jsval \<Rightarrow> int option" where
  "Number_digits v =
     (case v of
        JUndefined \<Rightarrow> None
      | JNumber n \<Rightarrow> Some n
      | JString s \<Rightarrow>
          if list_all (\<lambda>c. c \<in> set ''0123456789'') s
          then Some (fold (\<lambda>c acc. 10 * acc + (of_char c - 48)) s 0)
          else None)"

text \<open>A storage that holds the given text under the service's key and accepts writes.\<close>

definition storage_with :: "'n item option \<Rightarrow> 'n localStorage" where
  "storage_with it = \<lparr> items = (\<lambda>k. if k = STORAGE_KEY then it else None), write_fault = None \<rparr>"

text \<open>A service whose every method fails with the given envelope message.\<close>

definition failing_service :: "string option \<Rightarrow> (unit, 'v) VendorDataService" where
  "failing_service m =
     \<lparr> svc_fetchVendors = (\<lambda>b. (\<lparr> success = False, data = None, error = m \<rparr>, b)),
       svc_addVendor = (\<lambda>v b. (\<lparr> success = False, data = None, error = m \<rparr>, b)),
       svc_updateVendor = (\<lambda>k v b. (\<lparr> success = False, data = None, error = m \<rparr>, b)),
       svc_deleteVendor = (\<lambda>k b. (\<lparr> success = False, data = None, error = m \<rparr>, b)) \<rparr>"

text \<open>A service whose mutations succeed and whose fetch fails with the given message.\<close>

definition stale_service :: "string option \<Rightarrow> (unit, 'v) VendorDataService" where
  "stale_service m =
     \<lparr> svc_fetchVendors = (\<lambda>b. (\<lparr> success = False, data = None, error = m \<rparr>, b)),
       svc_addVendor = (\<lambda>v b. (\<lparr> success = True, data = Some v, error = None \<rparr>, b)),
       svc_updateVendor = (\<lambda>k v b. (\<lparr> success = True, data = Some v, error = None \<rparr>, b)),
       svc_deleteVendor = (\<lambda>k b. (\<lparr> success = True, data = None, error = None \<rparr>, b)) \<rparr>"


text \<open>
  A storage that holds the seed and refuses every write, and an empty one that refuses
  every write.
\<close>

definition full_storage :: "int localStorage" where
  "full_storage =
     (storage_with (Some (Encoded SEED_DATA)))\<lparr>write_fault := Some (ErrorObj ''QuotaExceededError'')\<rparr>"

definition full_empty_storage :: "int localStorage" where
  "full_empty_storage = (storage_with None)\<lparr>write_fault := Some (ErrorObj ''QuotaExceededError'')\<rparr>"

text \<open>The world of a hook that has just been created over the given backend.\<close>

definition fresh_world :: "'b \<Rightarrow> ('b, 'v) world" where
  "fresh_world b = \<lparr> ui = initial_state, backend = b, calls = [] \<rparr>"


text \<open>
  A sheet whose header row is not in the order of the writes and lacks three of the six
  columns; two of its rows carry the same company name, one has no number in the years
  column, one is short. And a stored list in which two records share the company name.
\<close>

definition example_sheet :: "string list list" where
  "example_sheet =
     [[''Products'', ''CompanyName'', ''YearsInBusiness''],
      [''Other'', ''Dup'', ''12''],
      [''Software'', ''Solo'', ''n/a''],
      [''Apparel'', ''Dup'']]"

definition example_vendors :: "int Vendor list" where
  "example_vendors =
     [\<lparr> CompanyName = ''Dup'', BusinessType = ''Retailer'', Products = ''Other'',
        YearsInBusiness = 12, OnboardingDate = ''2024-01-01'', AdditionalInfo = ''first'' \<rparr>,
      \<lparr> CompanyName = ''Solo'', BusinessType = ''Wholesaler'', Products = ''Software'',
        YearsInBusiness = 3, OnboardingDate = ''2024-02-02'', AdditionalInfo = '''' \<rparr>,
      \<lparr> CompanyName = ''Dup'', BusinessType = ''Distributor'', Products = ''Apparel'',
        YearsInBusiness = 7, OnboardingDate = ''2024-03-03'', AdditionalInfo = ''second'' \<rparr>]"


section \<open>Round trip of the conversions\<close>

lemma split_from_segment:
  "CHR '','' \<notin> set p \<Longrightarrow> split_from '', '' cur p = [rev cur @ p]"
  by (induction p arbitrary: cur) auto

lemma split_from_segment_sep:
  "CHR '','' \<notin> set p \<Longrightarrow>
   split_from '', '' cur (p @ '', '' @ rest) = (rev cur @ p) # split_from '', '' [] rest"
  by (induction p arbitrary: cur) auto

lemma split_from_join:
  "ps \<noteq> [] \<Longrightarrow> \<forall>p \<in> set ps. CHR '','' \<notin> set p \<Longrightarrow>
   split_from '', '' [] (join '', '' ps) = ps"
proof (induction ps rule: induct_list012)
  case 1
  then show ?case by simp
next
  case (2 x)
  then show ?case by (simp add: split_from_segment)
next
  case (3 x y ys)
  then show ?case
    using split_from_segment_sep[of x "[]" "join '', '' (y # ys)"] by simp
qed

lemma join_not_empty:
  "ps \<noteq> [] \<Longrightarrow> \<forall>p \<in> set ps. p \<noteq> [] \<Longrightarrow> join sep ps \<noteq> []"
  by (induction ps rule: induct_list012) auto

lemma PRODUCTS_plain: "p \<in> set PRODUCTS \<Longrightarrow> CHR '','' \<notin> set p \<and> p \<noteq> []"
  by (auto simp: PRODUCTS_def)

text \<open>
  Claim C2. A storage-form record whose product text is the \<open>'', ''\<close>-join of a list of
  product names comes back from the edit form with every field as it was, the company
  name and the notes trimmed; so a record whose company name and notes are already
  trimmed comes back unchanged. (The business type is copied in both directions, whatever
  its value.)
\<close>

theorem roundtrip_storage_edit_storage:
  assumes "Products r = join '', '' ps" and "set ps \<subseteq> set PRODUCTS"
  shows "formDataToVendor (vendorToFormData r) =
           r\<lparr>CompanyName := trim (CompanyName r), AdditionalInfo := trim (AdditionalInfo r)\<rparr>
         \<and> (trim (CompanyName r) = CompanyName r \<and> trim (AdditionalInfo r) = AdditionalInfo r
              \<longrightarrow> formDataToVendor (vendorToFormData r) = r)"
proof -
  have plain: "\<forall>p \<in> set ps. CHR '','' \<notin> set p" "\<forall>p \<in> set ps. p \<noteq> []"
    using assms(2) PRODUCTS_plain by blast+
  have "join '', '' (products (vendorToFormData r)) = Products r"
  proof (cases "ps = []")
    case True
    then show ?thesis using assms(1) by (simp add: vendorToFormData_def)
  next
    case False
    then have "Products r \<noteq> []"
      using assms(1) plain(2) join_not_empty by metis
    moreover have "split (Products r) '', '' = ps"
      using False plain(1) assms(1) by (simp add: split_def split_from_join)
    moreover have "filter_Boolean ps = ps"
      using plain(2) by (simp add: filter_Boolean_def)
    ultimately show ?thesis using assms(1) by (simp add: vendorToFormData_def)
  qed
  then have "formDataToVendor (vendorToFormData r) =
      r\<lparr>CompanyName := trim (CompanyName r), AdditionalInfo := trim (AdditionalInfo r)\<rparr>"
    by (simp add: formDataToVendor_def vendorToFormData_def)
  then show ?thesis by simp
qed

theorem roundtrip_storage_edit_storage_witness:
  "formDataToVendor (vendorToFormData
      \<lparr> CompanyName = ''Acme Electronics'', BusinessType = ''Manufacturer'',
        Products = ''Electronics, Software'', YearsInBusiness = 15 :: int,
        OnboardingDate = ''2024-01-15'', AdditionalInfo = ''Primary electronics supplier'' \<rparr>)
   = \<lparr> CompanyName = ''Acme Electronics'', BusinessType = ''Manufacturer'',
       Products = ''Electronics, Software'', YearsInBusiness = 15,
       OnboardingDate = ''2024-01-15'', AdditionalInfo = ''Primary electronics supplier'' \<rparr>"
  using roundtrip_storage_edit_storage[where ps = "[''Electronics'', ''Software'']"
      and r = "\<lparr> CompanyName = ''Acme Electronics'', BusinessType = ''Manufacturer'',
        Products = ''Electronics, Software'', YearsInBusiness = 15 :: int,
        OnboardingDate = ''2024-01-15'', AdditionalInfo = ''Primary electronics supplier'' \<rparr>"]
  by (simp add: PRODUCTS_def trim_def is_space_def)


section \<open>Remote backend: reading a short table, appending a row\<close>

text \<open>
  Claim C7. When the read succeeds and the body holds fewer than two rows (no
  \<^verbatim>\<open>values\<close> at all, no row, or the header row only), \<^verbatim>\<open>fetchVendors\<close> returns the
  success envelope with the empty list.
\<close>

theorem fetchVendors_short_table:
  assumes "net Get = Inr response" and "ok response" and "json response = Inr body"
    and "length (case body of None \<Rightarrow> [] | Some rows \<Rightarrow> rows) < 2"
  shows "gs_fetchVendors Number net = \<lparr> success = True, data = Some [], error = None \<rparr>"
  using assms by (simp add: gs_fetchVendors_def gs_fetchVendors_try_def)

theorem fetchVendors_short_table_witness:
  "gs_fetchVendors Number_digits (serving [sheet_headers])
     = \<lparr> success = True, data = Some [], error = None \<rparr>"
  using fetchVendors_short_table[where net = "serving [sheet_headers]"
      and body = "Some [sheet_headers]" and Number = Number_digits]
  by (simp add: serving_def)

text \<open>
  Claim C8. Whatever the transport answers (so whatever table and header row the sheet
  holds), \<^verbatim>\<open>addVendor\<close> sends exactly one request, an append of exactly one row, whose
  six cells are the company name, the business type, the product text, the years in
  business, the onboarding date and the notes of the record, in this order.
\<close>

theorem addVendor_appends_canonical_row:
  "snd (gs_addVendor net r) =
     [PostAppend [[JString (CompanyName r), JString (BusinessType r), JString (Products r),
                   JNumber (YearsInBusiness r), JString (OnboardingDate r),
                   JString (AdditionalInfo r)]]]"
  by (simp add: gs_addVendor_def gs_addVendor_try_def vendor_cells_def Let_def split: sum.splits)

theorem addVendor_appends_canonical_row_witness:
  "snd (gs_addVendor (serving example_sheet) (hd example_vendors)) =
     [PostAppend [[JString ''Dup'', JString ''Retailer'', JString ''Other'', JNumber 12,
                   JString ''2024-01-01'', JString ''first'']]]
   \<and> snd (gs_addVendor refusing (hd example_vendors)) =
     [PostAppend [[JString ''Dup'', JString ''Retailer'', JString ''Other'', JNumber 12,
                   JString ''2024-01-01'', JString ''first'']]]"
  using addVendor_appends_canonical_row[of "serving example_sheet" "hd example_vendors"]
    addVendor_appends_canonical_row[of refusing "hd example_vendors"]
  by (simp add: example_vendors_def)


section \<open>Orchestration layer: failed mutations, refresh, stale cache\<close>

lemma or_default_not_empty: "fallback \<noteq> [] \<Longrightarrow> or_default e fallback \<noteq> []"
  by (simp add: or_default_def split: option.splits)

lemma refresh_clears_flags:
  "isLoading (ui (refresh service w)) = False"
  "isInitialLoading (ui (refresh service w)) = False"
  "alert (ui (refresh service w)) = alert (ui w)"
  "calls (refresh service w) = calls w @ [FetchVendorsCall]"
  by (simp_all add: refresh_def Let_def split: prod.splits option.splits)

lemma refresh_failure:
  "\<not> success (fst (svc_fetchVendors service (backend w))) \<Longrightarrow>
   vendors (ui (refresh service w)) = vendors (ui w) \<and>
   error_msg (ui (refresh service w)) =
     Some (or_default (error (fst (svc_fetchVendors service (backend w))))
             ''Failed to fetch vendor data'')"
  by (cases "svc_fetchVendors service (backend w)") (simp add: refresh_def)

lemma full_storage_add:
  "fst (ls_addVendor v full_storage) =
     \<lparr> success = False, data = None, error = Some ''QuotaExceededError'' \<rparr>"
  by (simp add: ls_addVendor_def ls_addVendor_try_def getStoredVendors_def getItem_def
      full_storage_def storage_with_def saveVendors_def setItem_def failure_def)

lemma full_storage_update:
  "fst (ls_updateVendor ''Ghost'' v full_storage) =
     \<lparr> success = False, data = None, error = Some (not_found ''Ghost'') \<rparr>"
  by (simp add: ls_updateVendor_def ls_updateVendor_try_def getStoredVendors_def getItem_def
      full_storage_def storage_with_def SEED_DATA_def findIndex_def)

lemma full_storage_delete:
  "fst (ls_deleteVendor ''Ghost'' full_storage) =
     \<lparr> success = False, data = None, error = Some (not_found ''Ghost'') \<rparr>"
  by (simp add: ls_deleteVendor_def ls_deleteVendor_try_def getStoredVendors_def getItem_def
      full_storage_def storage_with_def SEED_DATA_def)

lemma full_empty_storage_fetch:
  "fst (ls_fetchVendors full_empty_storage) =
     \<lparr> success = False, data = None, error = Some ''QuotaExceededError'' \<rparr>"
  by (simp add: ls_fetchVendors_def ls_fetchVendors_try_def getStoredVendors_def getItem_def
      full_empty_storage_def storage_with_def setItem_def failure_def)

text \<open>
  Claim C5. When the service answers a mutation (add, update or delete) with a failure
  envelope, the operation of the hook resolves false; the record list is the one before
  the call; the alert is of the error kind and its message is not empty; the loading flag
  is cleared; and refresh has not run: the only service method called is the mutation
  itself, and the fetch error and the first-load flag are as they were.
\<close>

theorem failed_mutation_keeps_cache:
  "(\<not> success (fst (svc_addVendor service vendor (backend w))) \<longrightarrow>
      (case addVendor service vendor w of (r, w') \<Rightarrow>
         r = False \<and> vendors (ui w') = vendors (ui w)
         \<and> (\<exists>m. alert (ui w') = Some \<lparr> alert_type = AlertError, message = m \<rparr> \<and> m \<noteq> [])
         \<and> isLoading (ui w') = False
         \<and> calls w' = calls w @ [AddVendorCall]
         \<and> error_msg (ui w') = error_msg (ui w)
         \<and> isInitialLoading (ui w') = isInitialLoading (ui w)))
   \<and> (\<not> success (fst (svc_updateVendor service k vendor (backend w))) \<longrightarrow>
      (case updateVendor service k vendor w of (r, w') \<Rightarrow>
         r = False \<and> vendors (ui w') = vendors (ui w)
         \<and> (\<exists>m. alert (ui w') = Some \<lparr> alert_type = AlertError, message = m \<rparr> \<and> m \<noteq> [])
         \<and> isLoading (ui w') = False
         \<and> calls w' = calls w @ [UpdateVendorCall]
         \<and> error_msg (ui w') = error_msg (ui w)
         \<and> isInitialLoading (ui w') = isInitialLoading (ui w)))
   \<and> (\<not> success (fst (svc_deleteVendor service k (backend w))) \<longrightarrow>
      (case deleteVendor service k w of (r, w') \<Rightarrow>
         r = False \<and> vendors (ui w') = vendors (ui w)
         \<and> (\<exists>m. alert (ui w') = Some \<lparr> alert_type = AlertError, message = m \<rparr> \<and> m \<noteq> [])
         \<and> isLoading (ui w') = False
         \<and> calls w' = calls w @ [DeleteVendorCall]
         \<and> error_msg (ui w') = error_msg (ui w)
         \<and> isInitialLoading (ui w') = isInitialLoading (ui w)))"
  by (simp add: addVendor_def updateVendor_def deleteVendor_def Let_def or_default_not_empty
        split: prod.splits)

theorem failed_mutation_keeps_cache_witness:
  "fst (addVendor createLocalStorageService (hd SEED_DATA) (fresh_world full_storage)) = False
   \<and> ui (snd (addVendor createLocalStorageService (hd SEED_DATA) (fresh_world full_storage)))
       = \<lparr> vendors = [], isLoading = False, isInitialLoading = True, error_msg = None,
           alert = Some \<lparr> alert_type = AlertError, message = ''QuotaExceededError'' \<rparr> \<rparr>
   \<and> calls (snd (addVendor createLocalStorageService (hd SEED_DATA) (fresh_world full_storage)))
       = [AddVendorCall]
   \<and> fst (updateVendor createLocalStorageService ''Ghost'' (hd SEED_DATA)
             (fresh_world full_storage)) = False
   \<and> ui (snd (updateVendor createLocalStorageService ''Ghost'' (hd SEED_DATA)
                 (fresh_world full_storage)))
       = \<lparr> vendors = [], isLoading = False, isInitialLoading = True, error_msg = None,
           alert = Some \<lparr> alert_type = AlertError, message = not_found ''Ghost'' \<rparr> \<rparr>
   \<and> calls (snd (updateVendor createLocalStorageService ''Ghost'' (hd SEED_DATA)
                    (fresh_world full_storage)))
       = [UpdateVendorCall]
   \<and> fst (deleteVendor createLocalStorageService ''Ghost'' (fresh_world full_storage)) = False
   \<and> ui (snd (deleteVendor createLocalStorageService ''Ghost'' (fresh_world full_storage)))
       = \<lparr> vendors = [], isLoading = False, isInitialLoading = True, error_msg = None,
           alert = Some \<lparr> alert_type = AlertError, message = not_found ''Ghost'' \<rparr> \<rparr>
   \<and> calls (snd (deleteVendor createLocalStorageService ''Ghost'' (fresh_world full_storage)))
       = [DeleteVendorCall]"
proof -
  obtain ba where a: "svc_addVendor createLocalStorageService (hd SEED_DATA) full_storage =
      (\<lparr> success = False, data = None, error = Some ''QuotaExceededError'' \<rparr>, ba)"
    using full_storage_add[of "hd SEED_DATA"]
    by (cases "ls_addVendor (hd SEED_DATA) full_storage")
       (simp add: createLocalStorageService_def)
  obtain bu where u:
    "svc_updateVendor createLocalStorageService ''Ghost'' (hd SEED_DATA) full_storage =
      (\<lparr> success = False, data = None, error = Some (not_found ''Ghost'') \<rparr>, bu)"
    using full_storage_update[of "hd SEED_DATA"]
    by (cases "ls_updateVendor ''Ghost'' (hd SEED_DATA) full_storage")
       (simp add: createLocalStorageService_def)
  obtain bd where d: "svc_deleteVendor createLocalStorageService ''Ghost'' full_storage =
      (\<lparr> success = False, data = None, error = Some (not_found ''Ghost'') \<rparr>, bd)"
    using full_storage_delete
    by (cases "ls_deleteVendor ''Ghost'' full_storage")
       (simp add: createLocalStorageService_def)
  have n: "not_found ''Ghost'' \<noteq> []"
    by (simp add: not_found_def)
  show ?thesis
    using failed_mutation_keeps_cache[where service = createLocalStorageService
        and vendor = "hd SEED_DATA" and k = "''Ghost''" and w = "fresh_world full_storage"]
    by (simp add: addVendor_def updateVendor_def deleteVendor_def fresh_world_def
          initial_state_def a u d n or_default_def)
qed

text \<open>
  Claim C6, as the code has it. When \<^verbatim>\<open>fetchVendors\<close> answers with a failure envelope,
  refresh leaves the record list as it was and sets the fetch error to the envelope's
  message when that message is present and not empty, and to the fixed text
  \<open>Failed to fetch vendor data\<close> when the envelope carries no message or an empty one.
  In every run the loading flag and the first-load flag are false when refresh completes.
\<close>

theorem refresh_failure_and_flags:
  "(\<not> success (fst (svc_fetchVendors service (backend w))) \<longrightarrow>
      error_msg (ui (refresh service w)) =
        Some (or_default (error (fst (svc_fetchVendors service (backend w))))
                ''Failed to fetch vendor data'')
      \<and> vendors (ui (refresh service w)) = vendors (ui w))
   \<and> (\<forall>m. \<not> success (fst (svc_fetchVendors service (backend w)))
          \<and> error (fst (svc_fetchVendors service (backend w))) = Some m \<and> m \<noteq> []
        \<longrightarrow> error_msg (ui (refresh service w)) = Some m)
   \<and> isLoading (ui (refresh service w)) = False
   \<and> isInitialLoading (ui (refresh service w)) = False"
  using refresh_failure[of service w] refresh_clears_flags(1,2)[of service w]
  by (auto simp: or_default_def)

theorem refresh_failure_and_flags_witness:
  "error_msg (ui (refresh createLocalStorageService (fresh_world full_empty_storage)))
     = Some ''QuotaExceededError''
   \<and> vendors (ui (refresh createLocalStorageService (fresh_world full_empty_storage))) = []
   \<and> isLoading (ui (refresh createLocalStorageService (fresh_world full_empty_storage))) = False
   \<and> isInitialLoading (ui (refresh createLocalStorageService (fresh_world full_empty_storage)))
       = False"
  using refresh_failure_and_flags[where service = createLocalStorageService
      and w = "fresh_world full_empty_storage"] full_empty_storage_fetch
  by (simp add: createLocalStorageService_def fresh_world_def initial_state_def or_default_def)

text \<open>
  The claim as stated fails on a failure envelope whose message is the empty text: the
  fetch error is then the fixed text, not the envelope's message.
\<close>

theorem refresh_empty_message_counterexample:
  "\<not> success (fst (svc_fetchVendors (failing_service (Some '''') :: (unit, nat) VendorDataService) ()))
   \<and> error (fst (svc_fetchVendors (failing_service (Some '''') :: (unit, nat) VendorDataService) ()))
       = Some ''''
   \<and> error_msg (ui (refresh (failing_service (Some '''') :: (unit, nat) VendorDataService)
                      (fresh_world ())))
       = Some ''Failed to fetch vendor data''
   \<and> error_msg (ui (refresh (failing_service (Some '''') :: (unit, nat) VendorDataService)
                      (fresh_world ())))
       \<noteq> error (fst (svc_fetchVendors (failing_service (Some '''') :: (unit, nat) VendorDataService) ()))"
  by (simp add: failing_service_def refresh_def fresh_world_def initial_state_def or_default_def)

text \<open>
  Claim C10, as the code has it. When the mutation succeeds and the fetch inside the
  refresh that follows answers with a failure envelope, the operation still resolves
  true, the alert is the success alert of the operation, the record list is the one
  before the mutation, the loading flag is cleared, and the fetch error is the
  envelope's message when present and not empty, the fixed text
  \<open>Failed to fetch vendor data\<close> otherwise.
\<close>

theorem stale_cache_after_successful_mutation:
  "(success (fst (svc_addVendor service vendor (backend w)))
      \<and> \<not> success (fst (svc_fetchVendors service (snd (svc_addVendor service vendor (backend w)))))
    \<longrightarrow> (case addVendor service vendor w of (r, w') \<Rightarrow>
           r = True
           \<and> alert (ui w') = Some \<lparr> alert_type = AlertSuccess,
                                     message = ''Vendor details successfully submitted!'' \<rparr>
           \<and> error_msg (ui w') =
               Some (or_default
                       (error (fst (svc_fetchVendors service
                                      (snd (svc_addVendor service vendor (backend w))))))
                       ''Failed to fetch vendor data'')
           \<and> vendors (ui w') = vendors (ui w)
           \<and> isLoading (ui w') = False))
   \<and> (success (fst (svc_updateVendor service k vendor (backend w)))
      \<and> \<not> success (fst (svc_fetchVendors service
                          (snd (svc_updateVendor service k vendor (backend w)))))
    \<longrightarrow> (case updateVendor service k vendor w of (r, w') \<Rightarrow>
           r = True
           \<and> alert (ui w') = Some \<lparr> alert_type = AlertSuccess,
                                     message = ''Vendor details successfully updated!'' \<rparr>
           \<and> error_msg (ui w') =
               Some (or_default
                       (error (fst (svc_fetchVendors service
                                      (snd (svc_updateVendor service k vendor (backend w))))))
                       ''Failed to fetch vendor data'')
           \<and> vendors (ui w') = vendors (ui w)
           \<and> isLoading (ui w') = False))
   \<and> (success (fst (svc_deleteVendor service k (backend w)))
      \<and> \<not> success (fst (svc_fetchVendors service (snd (svc_deleteVendor service k (backend w)))))
    \<longrightarrow> (case deleteVendor service k w of (r, w') \<Rightarrow>
           r = True
           \<and> alert (ui w') = Some \<lparr> alert_type = AlertSuccess,
                                     message = ''Vendor successfully deleted!'' \<rparr>
           \<and> error_msg (ui w') =
               Some (or_default
                       (error (fst (svc_fetchVendors service
                                      (snd (svc_deleteVendor service k (backend w))))))
                       ''Failed to fetch vendor data'')
           \<and> vendors (ui w') = vendors (ui w)
           \<and> isLoading (ui w') = False))"
  by (simp add: addVendor_def updateVendor_def deleteVendor_def refresh_def Let_def
        split: prod.splits)


theorem stale_cache_after_successful_mutation_witness:
  "(case addVendor (stale_service (Some ''offline'')) (7 :: nat) (fresh_world ()) of
      (r, w') \<Rightarrow>
        r = True
        \<and> alert (ui w') = Some \<lparr> alert_type = AlertSuccess,
                                  message = ''Vendor details successfully submitted!'' \<rparr>
        \<and> error_msg (ui w') = Some ''offline'' \<and> vendors (ui w') = []
        \<and> isLoading (ui w') = False)
   \<and> (case updateVendor (stale_service (Some ''offline'')) ''Acme'' (7 :: nat) (fresh_world ()) of
      (r, w') \<Rightarrow>
        r = True
        \<and> alert (ui w') = Some \<lparr> alert_type = AlertSuccess,
                                  message = ''Vendor details successfully updated!'' \<rparr>
        \<and> error_msg (ui w') = Some ''offline'' \<and> vendors (ui w') = []
        \<and> isLoading (ui w') = False)
   \<and> (case deleteVendor (stale_service (Some ''offline'') :: (unit, nat) VendorDataService)
             ''Acme'' (fresh_world ()) of
      (r, w') \<Rightarrow>
        r = True
        \<and> alert (ui w') = Some \<lparr> alert_type = AlertSuccess,
                                  message = ''Vendor successfully deleted!'' \<rparr>
        \<and> error_msg (ui w') = Some ''offline'' \<and> vendors (ui w') = []
        \<and> isLoading (ui w') = False)"
  using stale_cache_after_successful_mutation[where service = "stale_service (Some ''offline'')"
      and vendor = "7 :: nat" and k = "''Acme''" and w = "fresh_world ()"]
  by (simp add: stale_service_def fresh_world_def initial_state_def or_default_def
        split: prod.splits)

text \<open>
  The claim as stated fails when the failing fetch carries the empty text as its message:
  the mutation resolves true and the fetch error is the fixed text, not that message.
\<close>

theorem stale_cache_empty_message_counterexample:
  "success (fst (svc_addVendor (stale_service (Some '''')) (7 :: nat) ()))
   \<and> \<not> success (fst (svc_fetchVendors (stale_service (Some '''') :: (unit, nat) VendorDataService) ()))
   \<and> error (fst (svc_fetchVendors (stale_service (Some '''') :: (unit, nat) VendorDataService) ()))
       = Some ''''
   \<and> fst (addVendor (stale_service (Some '''')) (7 :: nat) (fresh_world ())) = True
   \<and> error_msg (ui (snd (addVendor (stale_service (Some '''')) (7 :: nat) (fresh_world ()))))
       = Some ''Failed to fetch vendor data''
   \<and> error_msg (ui (snd (addVendor (stale_service (Some '''')) (7 :: nat) (fresh_world ()))))
       \<noteq> error (fst (svc_fetchVendors (stale_service (Some '''') :: (unit, nat) VendorDataService) ()))"
  by (simp add: stale_service_def addVendor_def refresh_def fresh_world_def initial_state_def
        or_default_def)


section \<open>Backends: reading the store, update and delete by key\<close>

lemma findIndex_from_none:
  "0 \<le> i \<Longrightarrow> (findIndex_from i P xs = -1) = (\<forall>x \<in> set xs. \<not> P x)"
  by (induction xs arbitrary: i) auto

lemma findIndex_none: "(findIndex P xs = -1) = (\<forall>x \<in> set xs. \<not> P x)"
  by (simp add: findIndex_def findIndex_from_none)

lemma length_filter_all: "(length (filter P xs) = length xs) = (\<forall>x \<in> set xs. P x)"
  by (metis filter_True length_filter_less nat_neq_iff)

lemma absent_from_map: "a \<notin> set (map f xs) \<Longrightarrow> \<forall>x \<in> set xs. f x \<noteq> a"
  by auto

lemma present_in_map: "a \<in> set (map f xs) \<Longrightarrow> \<exists>x \<in> set xs. f x = a"
  by auto

text \<open>What a read that returns does to the storage: nothing, or the write of the seed.\<close>

lemma getStoredVendors_storage:
  "getStoredVendors ls = (Inr vs, ls1) \<Longrightarrow>
     (truthy (getItem ls STORAGE_KEY) \<longrightarrow> ls1 = ls)
   \<and> (\<not> truthy (getItem ls STORAGE_KEY) \<longrightarrow>
        vs = SEED_DATA \<and> ls1 = ls\<lparr>items := (items ls)(STORAGE_KEY \<mapsto> Encoded SEED_DATA)\<rparr>)
   \<and> write_fault ls1 = write_fault ls"
  by (auto simp: getStoredVendors_def setItem_def JSON_stringify_def Let_def
        split: option.splits if_splits prod.splits sum.splits)

lemma gs_update_not_found:
  assumes "success (gs_fetchVendors Number net)" and "data (gs_fetchVendors Number net) = Some vs"
    and "\<forall>v \<in> set vs. get_prop v ''CompanyName'' \<noteq> JString k"
  shows "gs_updateVendor Number net k rec =
          (\<lparr> success = False, data = None, error = Some (not_found k) \<rparr>, [Get])"
proof -
  have "findIndex (\<lambda>v. get_prop v ''CompanyName'' = JString k) vs = -1"
    using assms(3) by (simp add: findIndex_none)
  then show ?thesis
    using assms(1,2) by (simp add: gs_updateVendor_def gs_updateVendor_try_def failure_def)
qed

lemma ls_update_not_found:
  assumes "getStoredVendors ls = (Inr lvs, ls1)" and "\<forall>v \<in> set lvs. CompanyName v \<noteq> k"
  shows "ls_updateVendor k lrec ls =
          (\<lparr> success = False, data = None, error = Some (not_found k) \<rparr>, ls1)"
proof -
  have "findIndex (\<lambda>v. CompanyName v = k) lvs = -1"
    using assms(2) by (simp add: findIndex_none)
  then show ?thesis
    using assms(1) by (simp add: ls_updateVendor_def ls_updateVendor_try_def)
qed

lemma gs_delete_not_found:
  assumes "success (gs_fetchVendors Number net)" and "data (gs_fetchVendors Number net) = Some vs"
    and "\<forall>v \<in> set vs. get_prop v ''CompanyName'' \<noteq> JString k"
  shows "gs_deleteVendor Number net k =
          (\<lparr> success = False, data = None, error = Some (not_found k) \<rparr>, [Get])"
proof -
  have "findIndex (\<lambda>v. get_prop v ''CompanyName'' = JString k) vs = -1"
    using assms(3) by (simp add: findIndex_none)
  then show ?thesis
    using assms(1,2) by (simp add: gs_deleteVendor_def gs_deleteVendor_try_def failure_def)
qed

lemma gs_delete_found:
  assumes "success (gs_fetchVendors Number net)" and "data (gs_fetchVendors Number net) = Some vs"
    and "\<exists>v \<in> set vs. get_prop v ''CompanyName'' = JString k"
    and "net (PutSheet (map JString sheet_headers #
            map obj_cells (filter (\<lambda>v. get_prop v ''CompanyName'' \<noteq> JString k) vs))) = Inr response"
    and "ok response"
  shows "gs_deleteVendor Number net k =
          (\<lparr> success = True, data = None, error = None \<rparr>,
           [Get, PutSheet (map JString sheet_headers #
              map obj_cells (filter (\<lambda>v. get_prop v ''CompanyName'' \<noteq> JString k) vs))])"
proof -
  have "findIndex (\<lambda>v. get_prop v ''CompanyName'' = JString k) vs \<noteq> -1"
    using assms(3) by (simp add: findIndex_none)
  then show ?thesis
    using assms(1,2,4,5) by (simp add: gs_deleteVendor_def gs_deleteVendor_try_def)
qed

lemma ls_delete_not_found:
  assumes "getStoredVendors ls = (Inr lvs, ls1)" and "\<forall>v \<in> set lvs. CompanyName v \<noteq> k"
  shows "ls_deleteVendor k ls =
          (\<lparr> success = False, data = None, error = Some (not_found k) \<rparr>, ls1)"
proof -
  have "length (filter (\<lambda>v. CompanyName v \<noteq> k) lvs) = length lvs"
    using assms(2) by (simp add: length_filter_all)
  then show ?thesis
    using assms(1) by (simp add: ls_deleteVendor_def ls_deleteVendor_try_def)
qed

lemma ls_delete_found:
  assumes "getStoredVendors ls = (Inr lvs, ls1)" and "\<exists>v \<in> set lvs. CompanyName v = k"
    and "write_fault ls = None"
  shows "ls_deleteVendor k ls =
          (\<lparr> success = True, data = None, error = None \<rparr>,
           ls1\<lparr>items := (items ls1)(STORAGE_KEY \<mapsto>
                 JSON_stringify (filter (\<lambda>v. CompanyName v \<noteq> k) lvs))\<rparr>)"
proof -
  have "length (filter (\<lambda>v. CompanyName v \<noteq> k) lvs) \<noteq> length lvs"
    using assms(2) by (simp add: length_filter_all)
  moreover have "write_fault ls1 = None"
    using assms(1,3) getStoredVendors_storage by metis
  ultimately show ?thesis
    using assms(1)
    by (simp add: ls_deleteVendor_def ls_deleteVendor_try_def saveVendors_def setItem_def)
qed

text \<open>The example sheet as the service reads it, and the example store.\<close>

lemma served_response:
  "serving rows req =
     Inr \<lparr> ok = True, status = ''200'', statusText = ''OK'', json = Inr (Some rows) \<rparr>"
  by (simp add: serving_def)

lemma example_fetch:
  "gs_fetchVendors Number_digits (serving example_sheet) =
     \<lparr> success = True,
       data = Some (map (row_to_vendor Number_digits (example_sheet ! 0)) (drop 1 example_sheet)),
       error = None \<rparr>"
  by (simp add: gs_fetchVendors_def gs_fetchVendors_try_def serving_def example_sheet_def Let_def)

lemma example_names:
  "map (\<lambda>v. get_prop v ''CompanyName'')
       (map (row_to_vendor Number_digits (example_sheet ! 0)) (drop 1 example_sheet))
     = [JString ''Dup'', JString ''Solo'', JString ''Dup'']"
  by (simp add: example_sheet_def row_to_vendor_def get_prop_def cell_or_empty_def
        enumerate_eq_zip upt_rec)

lemma example_survivors:
  "map obj_cells (filter (\<lambda>v. get_prop v ''CompanyName'' \<noteq> JString ''Dup'')
       (map (row_to_vendor Number_digits (example_sheet ! 0)) (drop 1 example_sheet)))
     = [[JString ''Solo'', JUndefined, JString ''Software'', JNumber 0, JUndefined, JUndefined]]"
  by (simp add: example_sheet_def row_to_vendor_def get_prop_def cell_or_empty_def
        enumerate_eq_zip upt_rec obj_cells_def Number_digits_def)

lemma example_stored:
  "getStoredVendors (storage_with (Some (Encoded example_vendors))) =
     (Inr example_vendors, storage_with (Some (Encoded example_vendors)))"
  by (simp add: getStoredVendors_def getItem_def storage_with_def)


text \<open>
  Claim C3, as the code has it. The seed has five records. A read of an empty store (no
  text under the key, or the empty text) in a storage that accepts the write returns
  the seed and leaves the encoded seed under the key. A read of a text that fails to
  parse returns the seed as well, in a success envelope, and leaves the storage exactly
  as it was: the unparseable text stays under the key.
\<close>

theorem read_seeds_empty_store:
  "length (SEED_DATA :: 'n Vendor list) = 5
   \<and> (\<not> truthy (getItem ls STORAGE_KEY) \<and> write_fault ls = None \<longrightarrow>
        getStoredVendors ls =
          (Inr SEED_DATA, ls\<lparr>items := (items ls)(STORAGE_KEY \<mapsto> JSON_stringify SEED_DATA)\<rparr>)
        \<and> ls_fetchVendors (ls :: ('n::numeral) localStorage) =
          (\<lparr> success = True, data = Some SEED_DATA, error = None \<rparr>,
           ls\<lparr>items := (items ls)(STORAGE_KEY \<mapsto> JSON_stringify SEED_DATA)\<rparr>)
        \<and> getItem (snd (ls_fetchVendors ls)) STORAGE_KEY = Some (JSON_stringify SEED_DATA))
   \<and> (getItem ls STORAGE_KEY = Some (Unparseable s) \<and> s \<noteq> [] \<longrightarrow>
        getStoredVendors ls = (Inr SEED_DATA, ls)
        \<and> ls_fetchVendors ls = (\<lparr> success = True, data = Some SEED_DATA, error = None \<rparr>, ls))"
  by (auto simp: SEED_DATA_def ls_fetchVendors_def ls_fetchVendors_try_def getStoredVendors_def
        setItem_def getItem_def Let_def)

theorem read_seeds_empty_store_witness:
  "ls_fetchVendors (storage_with None :: int localStorage) =
     (\<lparr> success = True, data = Some SEED_DATA, error = None \<rparr>,
      (storage_with None)\<lparr>items := (items (storage_with None))
                                       (STORAGE_KEY \<mapsto> JSON_stringify SEED_DATA)\<rparr>)
   \<and> ls_fetchVendors (storage_with (Some (Unparseable ''{oops'')) :: int localStorage) =
     (\<lparr> success = True, data = Some SEED_DATA, error = None \<rparr>,
      storage_with (Some (Unparseable ''{oops'')))"
  using read_seeds_empty_store[where ls = "storage_with None :: int localStorage"]
    read_seeds_empty_store[where ls = "storage_with (Some (Unparseable ''{oops'')) :: int localStorage"
      and s = "''{oops''"]
  by (simp add: getItem_def storage_with_def)

text \<open>
  The claim as stated fails on a store whose text does not parse: the read yields the
  seed, and afterwards the store still holds the unparseable text, not the seed.
\<close>

theorem read_unparseable_counterexample:
  "getItem (storage_with (Some (Unparseable ''{oops'')) :: int localStorage) STORAGE_KEY
     = Some (Unparseable ''{oops'')
   \<and> JSON_parse (Unparseable ''{oops'' :: int item) = None
   \<and> fst (ls_fetchVendors (storage_with (Some (Unparseable ''{oops'')) :: int localStorage))
       = \<lparr> success = True, data = Some SEED_DATA, error = None \<rparr>
   \<and> getItem (snd (ls_fetchVendors (storage_with (Some (Unparseable ''{oops'')) :: int localStorage)))
        STORAGE_KEY = Some (Unparseable ''{oops'')
   \<and> getItem (snd (ls_fetchVendors (storage_with (Some (Unparseable ''{oops'')) :: int localStorage)))
        STORAGE_KEY \<noteq> Some (JSON_stringify SEED_DATA)"
  by (simp add: ls_fetchVendors_def ls_fetchVendors_try_def getStoredVendors_def getItem_def
        storage_with_def JSON_stringify_def)

text \<open>
  Claim C4, as the code has it. Remote backend: when the read succeeds and none of the
  records read has the key as its company name, update returns the failure envelope
  with the message \<open>Vendor "k" not found\<close> and the only request sent is the read. Local
  backend: when the read returns and none of the records read has the key, update
  returns the same failure envelope; the storage is untouched when the store was not
  empty, and holds the seed that the read wrote when the store was empty.
\<close>

theorem update_not_found:
  "(success (gs_fetchVendors Number net) \<and> data (gs_fetchVendors Number net) = Some vs
      \<and> (\<forall>v \<in> set vs. get_prop v ''CompanyName'' \<noteq> JString k)
    \<longrightarrow> gs_updateVendor Number net k rec =
          (\<lparr> success = False, data = None, error = Some (not_found k) \<rparr>, [Get]))
   \<and> (getStoredVendors ls = (Inr lvs, ls1) \<and> (\<forall>v \<in> set lvs. CompanyName v \<noteq> k)
    \<longrightarrow> ls_updateVendor k lrec ls =
          (\<lparr> success = False, data = None, error = Some (not_found k) \<rparr>, ls1)
        \<and> (truthy (getItem ls STORAGE_KEY) \<longrightarrow> ls1 = ls)
        \<and> (\<not> truthy (getItem ls STORAGE_KEY) \<longrightarrow>
             ls1 = ls\<lparr>items := (items ls)(STORAGE_KEY \<mapsto> JSON_stringify SEED_DATA)\<rparr>))"
  using gs_update_not_found[of Number net vs k rec] ls_update_not_found[of ls lvs ls1 k lrec]
    getStoredVendors_storage[of ls lvs ls1]
  by (simp add: JSON_stringify_def)

theorem update_not_found_witness:
  "gs_updateVendor Number_digits (serving example_sheet) ''Ghost'' (hd example_vendors) =
     (\<lparr> success = False, data = None, error = Some (not_found ''Ghost'') \<rparr>, [Get])
   \<and> ls_updateVendor ''Ghost'' (hd example_vendors) (storage_with (Some (Encoded example_vendors)))
       = (\<lparr> success = False, data = None, error = Some (not_found ''Ghost'') \<rparr>,
          storage_with (Some (Encoded example_vendors)))"
proof -
  define vs where
    "vs = map (row_to_vendor Number_digits (example_sheet ! 0)) (drop 1 example_sheet)"
  define ls where "ls = storage_with (Some (Encoded example_vendors))"
  define net where "net = (serving example_sheet :: int transport)"
  have "JString ''Ghost'' \<notin> set (map (\<lambda>v. get_prop v ''CompanyName'') vs)"
    unfolding vs_def example_names by simp
  then have missing: "\<forall>v \<in> set vs. get_prop v ''CompanyName'' \<noteq> JString ''Ghost''"
    by (rule absent_from_map)
  have fetched: "success (gs_fetchVendors Number_digits net)"
      "data (gs_fetchVendors Number_digits net) = Some vs"
    unfolding net_def vs_def by (simp_all add: example_fetch)
  have stored: "getStoredVendors ls = (Inr example_vendors, ls)"
    unfolding ls_def by (rule example_stored)
  have lmissing: "\<forall>v \<in> set example_vendors. CompanyName v \<noteq> ''Ghost''"
    by (simp add: example_vendors_def)
  have "gs_updateVendor Number_digits net ''Ghost'' (hd example_vendors) =
          (\<lparr> success = False, data = None, error = Some (not_found ''Ghost'') \<rparr>, [Get])
        \<and> ls_updateVendor ''Ghost'' (hd example_vendors) ls =
          (\<lparr> success = False, data = None, error = Some (not_found ''Ghost'') \<rparr>, ls)"
    using update_not_found[of Number_digits net vs "''Ghost''" "hd example_vendors"
        ls example_vendors ls "hd example_vendors"]
      fetched missing stored lmissing by simp
  then show ?thesis
    unfolding net_def ls_def .
qed

text \<open>
  The claim as stated fails on the empty local store: no stored record has the key, the
  update fails with the not-found message, and yet the store has changed, since the read
  inside the update has written the seed.
\<close>

theorem update_empty_store_counterexample:
  "getItem (storage_with None :: int localStorage) STORAGE_KEY = None
   \<and> fst (ls_updateVendor ''Ghost'' (hd SEED_DATA) (storage_with None :: int localStorage))
       = \<lparr> success = False, data = None, error = Some (not_found ''Ghost'') \<rparr>
   \<and> getItem (snd (ls_updateVendor ''Ghost'' (hd SEED_DATA) (storage_with None :: int localStorage)))
        STORAGE_KEY = Some (JSON_stringify SEED_DATA)
   \<and> snd (ls_updateVendor ''Ghost'' (hd SEED_DATA) (storage_with None :: int localStorage))
       \<noteq> storage_with None"
proof -
  let ?ls = "storage_with None :: int localStorage"
  let ?ls' = "?ls\<lparr>items := (items ?ls)(STORAGE_KEY \<mapsto> JSON_stringify SEED_DATA)\<rparr>"
  have g: "getStoredVendors ?ls = (Inr SEED_DATA, ?ls')"
    by (simp add: getStoredVendors_def getItem_def storage_with_def setItem_def)
  have n: "findIndex (\<lambda>v. CompanyName v = ''Ghost'') (SEED_DATA :: int Vendor list) = -1"
    by (simp add: findIndex_def SEED_DATA_def)
  have u: "ls_updateVendor ''Ghost'' (hd SEED_DATA) ?ls =
     (\<lparr> success = False, data = None, error = Some (not_found ''Ghost'') \<rparr>, ?ls')"
    by (simp add: ls_updateVendor_def ls_updateVendor_try_def g n)
  have before: "getItem ?ls STORAGE_KEY = None"
    by (simp add: getItem_def storage_with_def)
  have after: "getItem ?ls' STORAGE_KEY = Some (JSON_stringify SEED_DATA)"
    by (simp add: getItem_def)
  have "?ls' \<noteq> ?ls"
    using before after by (metis option.distinct(1))
  then show ?thesis
    using before after by (simp add: u)
qed


text \<open>
  Claim C1, as the code has it. Remote backend, when the read succeeds: if some record
  read has the key and the rewrite is answered with success, delete succeeds and sends,
  after the read, one write of the whole sheet: the fixed header row followed by the six
  cells of every record read whose company name differs from the key, in their order; if
  no record read has the key, delete returns the not-found failure and sends nothing but
  the read. Local backend, when the read returns: if some record has the key and the
  storage accepts the write, delete succeeds and stores the list without every record
  that has the key, the others unchanged and in their order; if no record has the key,
  delete returns the not-found failure and the storage is as the read left it (untouched
  when the store was not empty, seeded when it was). The number of records removed is
  the number of records that have the key: one when the key is unique. What the sheet
  holds after the write is the answer of the spreadsheet service to it, which no code of
  the repository determines; the statement is about the request sent.
\<close>

theorem delete_removes_all_matching:
  "(success (gs_fetchVendors Number net) \<and> data (gs_fetchVendors Number net) = Some vs \<longrightarrow>
      ((\<exists>v \<in> set vs. get_prop v ''CompanyName'' = JString k)
         \<and> net (PutSheet (map JString sheet_headers #
              map obj_cells (filter (\<lambda>v. get_prop v ''CompanyName'' \<noteq> JString k) vs)))
             = Inr response
         \<and> ok response
       \<longrightarrow> gs_deleteVendor Number net k =
             (\<lparr> success = True, data = None, error = None \<rparr>,
              [Get, PutSheet (map JString sheet_headers #
                 map obj_cells (filter (\<lambda>v. get_prop v ''CompanyName'' \<noteq> JString k) vs))]))
      \<and> ((\<forall>v \<in> set vs. get_prop v ''CompanyName'' \<noteq> JString k)
       \<longrightarrow> gs_deleteVendor Number net k =
             (\<lparr> success = False, data = None, error = Some (not_found k) \<rparr>, [Get])))
   \<and> (getStoredVendors ls = (Inr lvs, ls1) \<longrightarrow>
      ((\<exists>v \<in> set lvs. CompanyName v = k) \<and> write_fault ls = None
       \<longrightarrow> ls_deleteVendor k ls =
             (\<lparr> success = True, data = None, error = None \<rparr>,
              ls1\<lparr>items := (items ls1)(STORAGE_KEY \<mapsto>
                    JSON_stringify (filter (\<lambda>v. CompanyName v \<noteq> k) lvs))\<rparr>))
      \<and> ((\<forall>v \<in> set lvs. CompanyName v \<noteq> k)
       \<longrightarrow> ls_deleteVendor k ls =
             (\<lparr> success = False, data = None, error = Some (not_found k) \<rparr>, ls1))
      \<and> (truthy (getItem ls STORAGE_KEY) \<longrightarrow> ls1 = ls)
      \<and> (\<not> truthy (getItem ls STORAGE_KEY) \<longrightarrow>
             ls1 = ls\<lparr>items := (items ls)(STORAGE_KEY \<mapsto> JSON_stringify SEED_DATA)\<rparr>)
      \<and> length (filter (\<lambda>v. CompanyName v \<noteq> k) lvs)
           + length (filter (\<lambda>v. CompanyName v = k) lvs) = length lvs)"
proof -
  have "length (filter (\<lambda>v. CompanyName v \<noteq> k) lvs)
           + length (filter (\<lambda>v. CompanyName v = k) lvs) = length lvs"
    using sum_length_filter_compl[of "\<lambda>v. CompanyName v = k" lvs] by simp
  then show ?thesis
    using gs_delete_found[of Number net vs k response] gs_delete_not_found[of Number net vs k]
      ls_delete_found[of ls lvs ls1 k] ls_delete_not_found[of ls lvs ls1 k]
      getStoredVendors_storage[of ls lvs ls1]
    by (simp add: JSON_stringify_def)
qed

theorem delete_removes_all_matching_witness:
  "gs_deleteVendor Number_digits (serving example_sheet) ''Dup'' =
     (\<lparr> success = True, data = None, error = None \<rparr>,
      [Get, PutSheet [map JString sheet_headers,
         [JString ''Solo'', JUndefined, JString ''Software'', JNumber 0, JUndefined, JUndefined]]])
   \<and> gs_deleteVendor Number_digits (serving example_sheet) ''Ghost'' =
     (\<lparr> success = False, data = None, error = Some (not_found ''Ghost'') \<rparr>, [Get])
   \<and> fst (ls_deleteVendor ''Dup'' (storage_with (Some (Encoded example_vendors))))
       = \<lparr> success = True, data = None, error = None \<rparr>
   \<and> getItem (snd (ls_deleteVendor ''Dup'' (storage_with (Some (Encoded example_vendors)))))
        STORAGE_KEY = Some (Encoded [example_vendors ! 1])
   \<and> ls_deleteVendor ''Ghost'' (storage_with (Some (Encoded example_vendors)))
       = (\<lparr> success = False, data = None, error = Some (not_found ''Ghost'') \<rparr>,
          storage_with (Some (Encoded example_vendors)))"
proof -
  define vs where
    "vs = map (row_to_vendor Number_digits (example_sheet ! 0)) (drop 1 example_sheet)"
  define ls where "ls = storage_with (Some (Encoded example_vendors))"
  define net where "net = (serving example_sheet :: int transport)"
  define response where
    "response = \<lparr> ok = True, status = ''200'', statusText = ''OK'',
                   json = Inr (Some example_sheet) \<rparr>"
  have names: "map (\<lambda>v. get_prop v ''CompanyName'') vs
                 = [JString ''Dup'', JString ''Solo'', JString ''Dup'']"
    unfolding vs_def by (rule example_names)
  have "JString ''Dup'' \<in> set (map (\<lambda>v. get_prop v ''CompanyName'') vs)"
    unfolding names by simp
  then have found: "\<exists>v \<in> set vs. get_prop v ''CompanyName'' = JString ''Dup''"
    by (rule present_in_map)
  have "JString ''Ghost'' \<notin> set (map (\<lambda>v. get_prop v ''CompanyName'') vs)"
    unfolding names by simp
  then have missing: "\<forall>v \<in> set vs. get_prop v ''CompanyName'' \<noteq> JString ''Ghost''"
    by (rule absent_from_map)
  have fetched: "success (gs_fetchVendors Number_digits net)"
      "data (gs_fetchVendors Number_digits net) = Some vs"
    unfolding net_def vs_def by (simp_all add: example_fetch)
  have answered: "\<And>req. net req = Inr response" "ok response"
    unfolding net_def response_def by (simp_all add: served_response)
  have survivors:
    "map obj_cells (filter (\<lambda>v. get_prop v ''CompanyName'' \<noteq> JString ''Dup'') vs)
       = [[JString ''Solo'', JUndefined, JString ''Software'', JNumber 0, JUndefined, JUndefined]]"
    unfolding vs_def by (rule example_survivors)
  have stored: "getStoredVendors ls = (Inr example_vendors, ls)"
    unfolding ls_def by (rule example_stored)
  have lfound: "\<exists>v \<in> set example_vendors. CompanyName v = ''Dup''"
    and lmissing: "\<forall>v \<in> set example_vendors. CompanyName v \<noteq> ''Ghost''"
    and lrest: "filter (\<lambda>v. CompanyName v \<noteq> ''Dup'') example_vendors = [example_vendors ! 1]"
    by (simp_all add: example_vendors_def)
  have lok: "write_fault ls = None"
    by (simp add: ls_def storage_with_def)
  have r1: "gs_deleteVendor Number_digits net ''Dup'' =
     (\<lparr> success = True, data = None, error = None \<rparr>,
      [Get, PutSheet [map JString sheet_headers,
         [JString ''Solo'', JUndefined, JString ''Software'', JNumber 0, JUndefined, JUndefined]]])"
    using delete_removes_all_matching[of Number_digits net vs "''Dup''" response
        ls example_vendors ls]
      fetched found answered survivors by simp
  have r2: "gs_deleteVendor Number_digits net ''Ghost'' =
     (\<lparr> success = False, data = None, error = Some (not_found ''Ghost'') \<rparr>, [Get])"
    using delete_removes_all_matching[of Number_digits net vs "''Ghost''" response
        ls example_vendors ls]
      fetched missing by simp
  have l1: "ls_deleteVendor ''Dup'' ls =
     (\<lparr> success = True, data = None, error = None \<rparr>,
      ls\<lparr>items := (items ls)(STORAGE_KEY \<mapsto> JSON_stringify [example_vendors ! 1])\<rparr>)"
    using delete_removes_all_matching[of Number_digits net vs "''Dup''" response
        ls example_vendors ls]
      stored lfound lok lrest by simp
  have l2: "ls_deleteVendor ''Ghost'' ls =
     (\<lparr> success = False, data = None, error = Some (not_found ''Ghost'') \<rparr>, ls)"
    using delete_removes_all_matching[of Number_digits net vs "''Ghost''" response
        ls example_vendors ls]
      stored lmissing by simp
  show ?thesis
    using r1 r2 l1 l2 unfolding net_def ls_def
    by (simp add: getItem_def JSON_stringify_def)
qed

text \<open>
  The claim as stated fails on a store in which two records share the key: the delete
  succeeds and removes both, so the stored list shrinks from three records to one.
\<close>

theorem delete_duplicates_counterexample:
  "getItem (storage_with (Some (Encoded example_vendors))) STORAGE_KEY
     = Some (Encoded example_vendors)
   \<and> length example_vendors = 3
   \<and> map CompanyName example_vendors = [''Dup'', ''Solo'', ''Dup'']
   \<and> fst (ls_deleteVendor ''Dup'' (storage_with (Some (Encoded example_vendors))))
       = \<lparr> success = True, data = None, error = None \<rparr>
   \<and> getItem (snd (ls_deleteVendor ''Dup'' (storage_with (Some (Encoded example_vendors)))))
        STORAGE_KEY = Some (Encoded [example_vendors ! 1])
   \<and> length [example_vendors ! 1] \<noteq> length example_vendors - 1"
proof -
  have rest: "filter (\<lambda>v. CompanyName v \<noteq> ''Dup'') example_vendors = [example_vendors ! 1]"
    by (simp add: example_vendors_def)
  have accepts: "write_fault (storage_with (Some (Encoded example_vendors))) = None"
    by (simp add: storage_with_def)
  have len: "length example_vendors = 3"
    by (simp add: example_vendors_def)
  have del: "ls_deleteVendor ''Dup'' (storage_with (Some (Encoded example_vendors))) =
     (\<lparr> success = True, data = None, error = None \<rparr>,
      (storage_with (Some (Encoded example_vendors)))
        \<lparr>items := (items (storage_with (Some (Encoded example_vendors))))
                    (STORAGE_KEY \<mapsto> JSON_stringify [example_vendors ! 1])\<rparr>)"
    by (simp add: ls_deleteVendor_def ls_deleteVendor_try_def example_stored rest
          saveVendors_def setItem_def accepts len)
  have before: "getItem (storage_with (Some (Encoded example_vendors))) STORAGE_KEY
     = Some (Encoded example_vendors)"
    by (simp add: getItem_def storage_with_def)
  have counts: "length example_vendors = 3"
      "map CompanyName example_vendors = [''Dup'', ''Solo'', ''Dup'']"
    by (simp_all add: example_vendors_def)
  show ?thesis
    using before counts by (simp add: del getItem_def JSON_stringify_def)
qed


section \<open>No operation of a backend throws\<close>

lemma is_failure_failure: "is_failure (failure e fallback)"
  by (simp add: is_failure_def failure_def)

lemma gs_fetch_envelope: "success (gs_fetchVendors Number net) \<or> is_failure (gs_fetchVendors Number net)"
  by (simp add: gs_fetchVendors_def gs_fetchVendors_try_def is_failure_failure Let_def
        split: sum.splits)

lemma gs_fetch_read_fails: "read_fails net \<Longrightarrow> is_failure (gs_fetchVendors Number net)"
  by (auto simp: read_fails_def gs_fetchVendors_def gs_fetchVendors_try_def is_failure_failure
        split: sum.splits)

lemma gs_fetch_read_fails': "read_fails net \<Longrightarrow> \<not> success (gs_fetchVendors Number net)"
  using gs_fetch_read_fails[of net Number] by (simp add: is_failure_def)

lemma gs_add_envelope: "success (fst (gs_addVendor net v)) \<or> is_failure (fst (gs_addVendor net v))"
  by (simp add: gs_addVendor_def gs_addVendor_try_def is_failure_failure Let_def
        split: sum.splits)

lemma gs_update_envelope:
  "success (fst (gs_updateVendor Number net k v)) \<or> is_failure (fst (gs_updateVendor Number net k v))"
  by (simp add: gs_updateVendor_def gs_updateVendor_try_def is_failure_failure Let_def
        split: sum.splits option.splits)

lemma gs_update_read_fails:
  "read_fails net \<Longrightarrow> is_failure (fst (gs_updateVendor Number net k v))"
  using gs_fetch_read_fails'[of net Number]
  by (simp add: gs_updateVendor_def gs_updateVendor_try_def is_failure_failure)

lemma gs_delete_envelope:
  "success (fst (gs_deleteVendor Number net k)) \<or> is_failure (fst (gs_deleteVendor Number net k))"
  by (simp add: gs_deleteVendor_def gs_deleteVendor_try_def is_failure_failure Let_def
        split: sum.splits option.splits)

lemma gs_delete_read_fails:
  "read_fails net \<Longrightarrow> is_failure (fst (gs_deleteVendor Number net k))"
  using gs_fetch_read_fails'[of net Number]
  by (simp add: gs_deleteVendor_def gs_deleteVendor_try_def is_failure_failure)

lemma getStoredVendors_cases:
  "(\<exists>e. getStoredVendors ls = (Inl e, ls) \<and> write_fault ls = Some e \<and> \<not> truthy (getItem ls STORAGE_KEY))
   \<or> (\<exists>vs ls1. getStoredVendors ls = (Inr vs, ls1) \<and> write_fault ls1 = write_fault ls)"
  by (auto simp: getStoredVendors_def setItem_def Let_def split: option.splits)

lemma ls_fetch_envelope: "success (fst (ls_fetchVendors ls)) \<or> is_failure (fst (ls_fetchVendors ls))"
  using getStoredVendors_cases[of ls]
  by (auto simp: ls_fetchVendors_def ls_fetchVendors_try_def is_failure_failure)

lemma ls_fetch_fault:
  "write_fault ls \<noteq> None \<Longrightarrow> \<not> truthy (getItem ls STORAGE_KEY) \<Longrightarrow> is_failure (fst (ls_fetchVendors ls))"
  by (auto simp: ls_fetchVendors_def ls_fetchVendors_try_def getStoredVendors_def setItem_def is_failure_failure)

lemma ls_add_envelope: "success (fst (ls_addVendor v ls)) \<or> is_failure (fst (ls_addVendor v ls))"
  using getStoredVendors_cases[of ls]
  by (auto simp: ls_addVendor_def ls_addVendor_try_def saveVendors_def setItem_def is_failure_failure
        split: option.splits)

lemma ls_add_fault: "write_fault ls \<noteq> None \<Longrightarrow> is_failure (fst (ls_addVendor v ls))"
  using getStoredVendors_cases[of ls]
  by (auto simp: ls_addVendor_def ls_addVendor_try_def saveVendors_def setItem_def is_failure_failure
        split: option.splits)

lemma ls_update_envelope:
  "success (fst (ls_updateVendor k v ls)) \<or> is_failure (fst (ls_updateVendor k v ls))"
  using getStoredVendors_cases[of ls]
  by (auto simp: ls_updateVendor_def ls_updateVendor_try_def saveVendors_def setItem_def
        is_failure_def failure_def Let_def split: option.splits if_splits)

lemma ls_update_fault: "write_fault ls \<noteq> None \<Longrightarrow> is_failure (fst (ls_updateVendor k v ls))"
  using getStoredVendors_cases[of ls]
  by (auto simp: ls_updateVendor_def ls_updateVendor_try_def saveVendors_def setItem_def
        is_failure_def failure_def Let_def split: option.splits if_splits)

lemma ls_delete_envelope:
  "success (fst (ls_deleteVendor k ls)) \<or> is_failure (fst (ls_deleteVendor k ls))"
  using getStoredVendors_cases[of ls]
  by (auto simp: ls_deleteVendor_def ls_deleteVendor_try_def saveVendors_def setItem_def
        is_failure_def failure_def Let_def split: option.splits if_splits)

lemma ls_delete_fault: "write_fault ls \<noteq> None \<Longrightarrow> is_failure (fst (ls_deleteVendor k ls))"
  using getStoredVendors_cases[of ls]
  by (auto simp: ls_deleteVendor_def ls_deleteVendor_try_def saveVendors_def setItem_def
        is_failure_def failure_def Let_def split: option.splits if_splits)


lemma gs_fetch_success_read:
  "success (gs_fetchVendors Number net) \<Longrightarrow> \<not> request_fails net Get"
  by (auto simp: request_fails_def gs_fetchVendors_def gs_fetchVendors_try_def failure_def
        split: sum.splits if_splits)

lemma gs_add_sent_fails:
  "\<exists>req \<in> set (snd (gs_addVendor net v)). request_fails net req \<Longrightarrow>
   is_failure (fst (gs_addVendor net v))"
  by (auto simp: request_fails_def gs_addVendor_def gs_addVendor_try_def is_failure_failure Let_def
        split: sum.splits)

lemma gs_update_sent_fails:
  "\<exists>req \<in> set (snd (gs_updateVendor Number net k v)). request_fails net req \<Longrightarrow>
   is_failure (fst (gs_updateVendor Number net k v))"
  using gs_fetch_success_read[of Number net]
  by (auto simp: request_fails_def gs_updateVendor_def gs_updateVendor_try_def is_failure_failure
        Let_def split: sum.splits option.splits if_splits)

lemma gs_delete_sent_fails:
  "\<exists>req \<in> set (snd (gs_deleteVendor Number net k)). request_fails net req \<Longrightarrow>
   is_failure (fst (gs_deleteVendor Number net k))"
  using gs_fetch_success_read[of Number net]
  by (auto simp: request_fails_def gs_deleteVendor_def gs_deleteVendor_try_def is_failure_failure
        Let_def split: sum.splits option.splits if_splits)

lemma ls_unparseable_read:
  "getItem ls STORAGE_KEY = Some (Unparseable s) \<Longrightarrow> s \<noteq> [] \<Longrightarrow>
   getStoredVendors ls = (Inr SEED_DATA, ls)"
  by (simp add: getStoredVendors_def)

lemma ls_unparseable_fetch:
  "getItem ls STORAGE_KEY = Some (Unparseable s) \<Longrightarrow> s \<noteq> [] \<Longrightarrow>
   ls_fetchVendors ls = (\<lparr> success = True, data = Some SEED_DATA, error = None \<rparr>, ls)"
  by (simp add: ls_fetchVendors_def ls_fetchVendors_try_def ls_unparseable_read)

lemma ls_unparseable_add:
  "getItem ls STORAGE_KEY = Some (Unparseable s) \<Longrightarrow> s \<noteq> [] \<Longrightarrow> write_fault ls = None \<Longrightarrow>
   ls_addVendor lv ls =
     (\<lparr> success = True, data = Some lv, error = None \<rparr>,
      ls\<lparr>items := (items ls)(STORAGE_KEY \<mapsto> JSON_stringify (SEED_DATA @ [lv]))\<rparr>)"
  by (simp add: ls_addVendor_def ls_addVendor_try_def ls_unparseable_read saveVendors_def
        setItem_def)

text \<open>Update over the transport that refuses writes: the read, then the write of row 3.\<close>

lemma read_only_update_requests:
  "snd (gs_updateVendor Number_digits (read_only example_sheet) ''Solo'' (hd example_vendors)) =
     [Get, PutRow 3 [vendor_cells (hd example_vendors)]]"
proof -
  define vs where
    "vs = map (row_to_vendor Number_digits (example_sheet ! 0)) (drop 1 example_sheet)"
  define net where "net = (read_only example_sheet :: int transport)"
  have fetched:
    "gs_fetchVendors Number_digits net = \<lparr> success = True, data = Some vs, error = None \<rparr>"
    unfolding net_def vs_def
    by (simp add: gs_fetchVendors_def gs_fetchVendors_try_def read_only_def example_sheet_def
          Let_def)
  have idx: "findIndex (\<lambda>v. get_prop v ''CompanyName'' = JString ''Solo'') vs = 1"
    unfolding vs_def
    by (simp add: findIndex_def example_sheet_def row_to_vendor_def get_prop_def cell_or_empty_def
          enumerate_eq_zip upt_rec)
  have refused: "net (PutRow 3 cells) =
      Inr \<lparr> ok = False, status = ''403'', statusText = ''Forbidden'', json = Inr None \<rparr>"
    for cells
    unfolding net_def by (simp add: read_only_def)
  have "snd (gs_updateVendor Number_digits net ''Solo'' (hd example_vendors)) =
     [Get, PutRow 3 [vendor_cells (hd example_vendors)]]"
    by (simp add: gs_updateVendor_def gs_updateVendor_try_def fetched idx refused)
  then show ?thesis unfolding net_def .
qed

text \<open>
  Claim C9, as the code has it. Every operation of either backend is a total function
  into envelopes, and for every input the envelope is a success or a failure envelope
  (flag false, message present): nothing thrown inside an operation leaves it. In the
  remote backend a read that fails (rejected request, non-success status, or a response
  body that does not parse) gives a failure envelope for the read and for update and
  delete, and for add, update and delete a failure of any request the operation has
  actually sent gives a failure envelope. In the local backend a storage that throws on
  writing gives a failure envelope for add, update and delete, and for the read of an
  empty store. A stored text that does not parse is not returned as a failure: the read
  catches it and takes the seed instead, so the fetch returns a success envelope with
  the seed and leaves the storage as it was, and add, in a storage that accepts the
  write, succeeds on the seed.
\<close>

theorem backend_operations_return_envelopes:
  "(success (gs_fetchVendors Number net) \<or> is_failure (gs_fetchVendors Number net))
   \<and> (success (fst (gs_addVendor net v)) \<or> is_failure (fst (gs_addVendor net v)))
   \<and> (success (fst (gs_updateVendor Number net k v))
        \<or> is_failure (fst (gs_updateVendor Number net k v)))
   \<and> (success (fst (gs_deleteVendor Number net k))
        \<or> is_failure (fst (gs_deleteVendor Number net k)))
   \<and> (success (fst (ls_fetchVendors ls)) \<or> is_failure (fst (ls_fetchVendors ls)))
   \<and> (success (fst (ls_addVendor lv ls)) \<or> is_failure (fst (ls_addVendor lv ls)))
   \<and> (success (fst (ls_updateVendor k lv ls)) \<or> is_failure (fst (ls_updateVendor k lv ls)))
   \<and> (success (fst (ls_deleteVendor k ls)) \<or> is_failure (fst (ls_deleteVendor k ls)))
   \<and> (read_fails net \<longrightarrow>
         is_failure (gs_fetchVendors Number net)
         \<and> is_failure (fst (gs_updateVendor Number net k v))
         \<and> is_failure (fst (gs_deleteVendor Number net k)))
   \<and> ((\<exists>req \<in> set (snd (gs_addVendor net v)). request_fails net req) \<longrightarrow>
         is_failure (fst (gs_addVendor net v)))
   \<and> ((\<exists>req \<in> set (snd (gs_updateVendor Number net k v)). request_fails net req) \<longrightarrow>
         is_failure (fst (gs_updateVendor Number net k v)))
   \<and> ((\<exists>req \<in> set (snd (gs_deleteVendor Number net k)). request_fails net req) \<longrightarrow>
         is_failure (fst (gs_deleteVendor Number net k)))
   \<and> (write_fault ls \<noteq> None \<longrightarrow>
         is_failure (fst (ls_addVendor lv ls))
         \<and> is_failure (fst (ls_updateVendor k lv ls))
         \<and> is_failure (fst (ls_deleteVendor k ls))
         \<and> (\<not> truthy (getItem ls STORAGE_KEY) \<longrightarrow> is_failure (fst (ls_fetchVendors ls))))
   \<and> (getItem ls STORAGE_KEY = Some (Unparseable s) \<and> s \<noteq> [] \<longrightarrow>
         ls_fetchVendors ls = (\<lparr> success = True, data = Some SEED_DATA, error = None \<rparr>, ls)
         \<and> (write_fault ls = None \<longrightarrow>
              fst (ls_addVendor lv ls) = \<lparr> success = True, data = Some lv, error = None \<rparr>))"
proof (intro conjI impI)
  show "is_failure (gs_fetchVendors Number net)" if "read_fails net"
    using that by (rule gs_fetch_read_fails)
  show "is_failure (fst (gs_updateVendor Number net k v))" if "read_fails net"
    using that by (rule gs_update_read_fails)
  show "is_failure (fst (gs_deleteVendor Number net k))" if "read_fails net"
    using that by (rule gs_delete_read_fails)
  show "is_failure (fst (gs_addVendor net v))"
    if "\<exists>req \<in> set (snd (gs_addVendor net v)). request_fails net req"
    using that by (rule gs_add_sent_fails)
  show "is_failure (fst (gs_updateVendor Number net k v))"
    if "\<exists>req \<in> set (snd (gs_updateVendor Number net k v)). request_fails net req"
    using that by (rule gs_update_sent_fails)
  show "is_failure (fst (gs_deleteVendor Number net k))"
    if "\<exists>req \<in> set (snd (gs_deleteVendor Number net k)). request_fails net req"
    using that by (rule gs_delete_sent_fails)
  show "is_failure (fst (ls_addVendor lv ls))" if "write_fault ls \<noteq> None"
    using that by (rule ls_add_fault)
  show "is_failure (fst (ls_updateVendor k lv ls))" if "write_fault ls \<noteq> None"
    using that by (rule ls_update_fault)
  show "is_failure (fst (ls_deleteVendor k ls))" if "write_fault ls \<noteq> None"
    using that by (rule ls_delete_fault)
  show "is_failure (fst (ls_fetchVendors ls))"
    if "write_fault ls \<noteq> None" and "\<not> truthy (getItem ls STORAGE_KEY)"
    using that by (rule ls_fetch_fault)
  show "ls_fetchVendors ls = (\<lparr> success = True, data = Some SEED_DATA, error = None \<rparr>, ls)"
    if "getItem ls STORAGE_KEY = Some (Unparseable s) \<and> s \<noteq> []"
    using that ls_unparseable_fetch[of ls s] by simp
  show "fst (ls_addVendor lv ls) = \<lparr> success = True, data = Some lv, error = None \<rparr>"
    if "getItem ls STORAGE_KEY = Some (Unparseable s) \<and> s \<noteq> []" and "write_fault ls = None"
    using that ls_unparseable_add[of ls s lv] by simp
qed (rule gs_fetch_envelope gs_add_envelope gs_update_envelope gs_delete_envelope
       ls_fetch_envelope ls_add_envelope ls_update_envelope ls_delete_envelope)+

theorem backend_operations_return_envelopes_witness:
  "is_failure (gs_fetchVendors Number_digits refusing)
   \<and> is_failure (fst (gs_addVendor refusing (hd example_vendors)))
   \<and> is_failure (fst (gs_updateVendor Number_digits refusing ''Dup'' (hd example_vendors)))
   \<and> is_failure (fst (gs_deleteVendor Number_digits refusing ''Dup''))
   \<and> snd (gs_updateVendor Number_digits (read_only example_sheet) ''Solo'' (hd example_vendors))
       = [Get, PutRow 3 [vendor_cells (hd example_vendors)]]
   \<and> is_failure (fst (gs_updateVendor Number_digits (read_only example_sheet) ''Solo''
                         (hd example_vendors)))
   \<and> is_failure (fst (ls_fetchVendors full_empty_storage))
   \<and> is_failure (fst (ls_addVendor (hd example_vendors) full_storage))
   \<and> is_failure (fst (ls_updateVendor ''Dup'' (hd example_vendors) full_storage))
   \<and> is_failure (fst (ls_deleteVendor ''Dup'' full_storage))
   \<and> ls_fetchVendors (storage_with (Some (Unparseable ''not json'')) :: int localStorage)
       = (\<lparr> success = True, data = Some SEED_DATA, error = None \<rparr>,
          storage_with (Some (Unparseable ''not json'')))"
proof -
  let ?v = "hd example_vendors"
  let ?bad = "storage_with (Some (Unparseable ''not json'')) :: int localStorage"
  have sent: "\<exists>req \<in> set (snd (gs_updateVendor Number_digits (read_only example_sheet) ''Solo'' ?v)).
                request_fails (read_only example_sheet) req"
    unfolding read_only_update_requests by (simp add: request_fails_def read_only_def)
  have unparseable: "getItem ?bad STORAGE_KEY = Some (Unparseable ''not json'')"
    by (simp add: getItem_def storage_with_def)
  have refused: "read_fails (refusing :: int transport)"
    "\<exists>req \<in> set (snd (gs_addVendor refusing ?v)). request_fails refusing req"
    by (simp_all add: read_fails_def request_fails_def refusing_def gs_addVendor_def
          gs_addVendor_try_def)
  have full: "write_fault full_storage \<noteq> None" "write_fault full_empty_storage \<noteq> None"
    "\<not> truthy (getItem full_empty_storage STORAGE_KEY)"
    by (simp_all add: full_storage_def full_empty_storage_def storage_with_def getItem_def)
  have remote: "is_failure (gs_fetchVendors Number_digits refusing)
     \<and> is_failure (fst (gs_addVendor refusing ?v))
     \<and> is_failure (fst (gs_updateVendor Number_digits refusing ''Dup'' ?v))
     \<and> is_failure (fst (gs_deleteVendor Number_digits refusing ''Dup''))
     \<and> is_failure (fst (ls_addVendor ?v full_storage))
     \<and> is_failure (fst (ls_updateVendor ''Dup'' ?v full_storage))
     \<and> is_failure (fst (ls_deleteVendor ''Dup'' full_storage))"
    using backend_operations_return_envelopes[of Number_digits refusing ?v "''Dup''"
        full_storage ?v "''x''"] refused full(1)
    by simp
  have empty: "is_failure (fst (ls_fetchVendors full_empty_storage))"
    using backend_operations_return_envelopes[of Number_digits refusing ?v "''Dup''"
        full_empty_storage ?v "''x''"] full(2,3)
    by simp
  have written: "is_failure (fst (gs_updateVendor Number_digits (read_only example_sheet)
                                   ''Solo'' ?v))"
    using backend_operations_return_envelopes[of Number_digits "read_only example_sheet" ?v
        "''Solo''" full_storage ?v "''x''"] sent
    by simp
  have absorbed:
    "ls_fetchVendors ?bad
       = (\<lparr> success = True, data = Some SEED_DATA, error = None \<rparr>, ?bad)"
    using backend_operations_return_envelopes[of Number_digits refusing ?v "''Dup''"
        ?bad ?v "''not json''"] unparseable
    by simp
  show ?thesis
    using remote empty written absorbed read_only_update_requests by simp
qed

text \<open>
  The claim as stated fails in the local backend on a stored text that does not parse:
  the parse failure is not returned as a failure envelope; fetch and add both return
  success envelopes.
\<close>

theorem local_parse_failure_counterexample:
  "getItem (storage_with (Some (Unparseable ''not json'')) :: int localStorage) STORAGE_KEY
     = Some (Unparseable ''not json'')
   \<and> JSON_parse (Unparseable ''not json'' :: int item) = None
   \<and> success (fst (ls_fetchVendors
                     (storage_with (Some (Unparseable ''not json'')) :: int localStorage)))
   \<and> \<not> is_failure (fst (ls_fetchVendors
                          (storage_with (Some (Unparseable ''not json'')) :: int localStorage)))
   \<and> success (fst (ls_addVendor (hd example_vendors)
                     (storage_with (Some (Unparseable ''not json'')))))
   \<and> \<not> is_failure (fst (ls_addVendor (hd example_vendors)
                          (storage_with (Some (Unparseable ''not json'')))))"
proof -
  let ?ls = "storage_with (Some (Unparseable ''not json'')) :: int localStorage"
  have g: "getItem ?ls STORAGE_KEY = Some (Unparseable ''not json'')"
    by (simp add: getItem_def storage_with_def)
  have w: "write_fault ?ls = None"
    by (simp add: storage_with_def)
  have f: "fst (ls_fetchVendors ?ls) = \<lparr> success = True, data = Some SEED_DATA, error = None \<rparr>"
    using ls_unparseable_fetch[OF g] by simp
  have a: "fst (ls_addVendor (hd example_vendors) ?ls)
             = \<lparr> success = True, data = Some (hd example_vendors), error = None \<rparr>"
    using ls_unparseable_add[OF g _ w] by simp
  show ?thesis
    using g by (simp add: f a is_failure_def)
qed

end
